theory Spec2Isabelle
  imports Main "HOL-Library.Finite_Map" "HOL-Library.Multiset"
begin

section \<open>Data model of \<^verbatim>\<open>core/component.go\<close>\<close>

text \<open>
  Modelled from the spec: the type \<^verbatim>\<open>ComponentConfig\<close>, which \<^verbatim>\<open>component.go\<close> uses
  and another file of the repository declares.  Its two fields are the ones the data
  model of the specification lists and \<^verbatim>\<open>IterateComponentTree\<close> initialises:
  \<^verbatim>\<open>Config map[string]interface{}\<close> and \<^verbatim>\<open>Subcomponents map[string]ComponentConfig\<close>.
  The values of the first map are opaque to this file, hence the type parameter.  A Go
  map is a finite map here; a \<^verbatim>\<open>nil\<close> map and an empty map both have no entries and
  both are \<open>fmempty\<close>.
\<close>

datatype 'v ComponentConfig =
  ComponentConfig (cfg_Config: "(string, 'v) fmap")
                  (cfg_Subcomponents: "(string, 'v ComponentConfig) fmap")

text \<open>
  \<^verbatim>\<open>type Component struct\<close>, field by field and in the order of the source.  The
  struct contains itself through \<^verbatim>\<open>Subcomponents []Component\<close>, so it is a datatype
  with selectors rather than a record.
\<close>

datatype 'v Component =
  Component (Name: string) (Source: string) (Method: string) (Generator: string)
            (Subcomponents: "'v Component list") (Repo: string) (Path: string)
            (PhysicalPath: string) (LogicalPath: string) (Config: "'v ComponentConfig")
            (Manifest: string)

text \<open>The zero value of \<^verbatim>\<open>ComponentConfig\<close>: what a Go map lookup yields for a missing key.\<close>

definition zero_config :: "'v ComponentConfig" where
  "zero_config = ComponentConfig fmempty fmempty"

text \<open>
  A composite literal \<^verbatim>\<open>Component{Name: n, Source: s, Method: m}\<close>: every field that is
  not named has its zero value.
\<close>

definition component_literal :: "string \<Rightarrow> string \<Rightarrow> string \<Rightarrow> 'v Component" where
  "component_literal n s m = Component n s m [] [] [] [] [] [] zero_config []"

text \<open>
  Go's \<^verbatim>\<open>error\<close> values, by kind.  \<open>NotFound p\<close> is
  \<^verbatim>\<open>errors.Errorf("Component expected at path %s not found", p)\<close>; \<open>ReadError p\<close> is what
  \<^verbatim>\<open>ioutil.ReadFile\<close> returns for a file it cannot read; \<open>ParseError p\<close> is what
  \<^verbatim>\<open>json.Unmarshal\<close> returns for the contents of the file at \<open>p\<close>; \<open>Failure\<close> is any
  other error (a failed command, an error of the caller's callback).
\<close>

datatype error = NotFound string | ReadError string | ParseError string | Failure string

text \<open>
  What \<^verbatim>\<open>os.Stat\<close> and \<^verbatim>\<open>ioutil.ReadFile\<close> can observe of a path: there is no
  such file (\<^verbatim>\<open>os.IsNotExist\<close>), the file cannot be read, or its bytes.
\<close>

datatype file_state = NotExist | Unreadable | Contents string

text \<open>The three commands \<^verbatim>\<open>Install\<close> runs through \<^verbatim>\<open>exec.Command(...).Run()\<close>.\<close>

datatype command = Mkdir_p string | Rm_rf string | Git_clone string string

text \<open>
  Everything \<^verbatim>\<open>component.go\<close> takes from outside: the file system as the world
  \<open>'s\<close> shows it, \<^verbatim>\<open>json.Unmarshal\<close> into a \<^verbatim>\<open>Component\<close> and into a
  \<^verbatim>\<open>ComponentConfig\<close> (\<open>None\<close> when it returns an error), and
  \<^verbatim>\<open>ComponentConfig.Merge\<close>, which is declared in another file: \<open>Merge E target new\<close>
  is the value of the receiver \<open>target\<close> after \<^verbatim>\<open>target.Merge(new)\<close>.
\<close>

record ('s, 'v) env =
  file_at :: "'s \<Rightarrow> string \<Rightarrow> file_state"
  unmarshal_component :: "string \<Rightarrow> 'v Component option"
  unmarshal_config :: "string \<Rightarrow> 'v ComponentConfig option"
  Merge :: "'v ComponentConfig \<Rightarrow> 'v ComponentConfig \<Rightarrow> 'v ComponentConfig"

text \<open>
  \<^verbatim>\<open>type ComponentIteration func(path string, component *Component) (err error)\<close>.
  The callback gets a pointer to the component and may do anything to the world, so it
  returns its error, the component as it left it, and the world as it left it.
\<close>

type_synonym ('s, 'v) ComponentIteration =
  "string \<Rightarrow> 'v Component \<Rightarrow> 's \<Rightarrow> error option \<times> 'v Component \<times> 's"

subsection \<open>Go's \<^verbatim>\<open>path.Clean\<close> and \<^verbatim>\<open>path.Join\<close>\<close>

text \<open>
  The standard library's \<^verbatim>\<open>path.Clean\<close>, as its source reads.  \<open>p\<close> is the input
  from the read index \<^verbatim>\<open>r\<close> on, \<open>out\<close> the first \<^verbatim>\<open>out.w\<close> bytes of the output
  buffer and \<open>dotdot\<close> the index where \<^verbatim>\<open>..\<close> must stop.  \<open>backtrack\<close> is the inner
  loop \<^verbatim>\<open>for out.w > dotdot && out.index(out.w) != '/' { out.w-- }\<close>.
\<close>

function backtrack :: "string \<Rightarrow> nat \<Rightarrow> nat \<Rightarrow> nat" where
  "backtrack out dotdot w =
     (if w > dotdot \<and> out ! w \<noteq> CHR ''/'' then backtrack out dotdot (w - 1) else w)"
  by pat_completeness auto
termination
  by (relation "measure (\<lambda>(out, dotdot, w). w)") auto

declare backtrack.simps [simp del]

text \<open>
  \<^verbatim>\<open>path[r] == '.' && (r+1 == n || path[r+1] == '/')\<close> and
  \<^verbatim>\<open>path[r] == '.' && path[r+1] == '.' && (r+2 == n || path[r+2] == '/')\<close>.
\<close>

definition dot_element :: "string \<Rightarrow> bool" where
  "dot_element p = (case p of
       c # rest \<Rightarrow> c = CHR ''.'' \<and> (rest = [] \<or> hd rest = CHR ''/'')
     | [] \<Rightarrow> False)"

definition dotdot_element :: "string \<Rightarrow> bool" where
  "dotdot_element p = (case p of
       c # d # rest \<Rightarrow> c = CHR ''.'' \<and> d = CHR ''.'' \<and> (rest = [] \<or> hd rest = CHR ''/'')
     | _ \<Rightarrow> False)"

function Clean_loop :: "bool \<Rightarrow> string \<Rightarrow> string \<Rightarrow> nat \<Rightarrow> string" where
  "Clean_loop rooted p out dotdot =
     (if p = [] then out
      else if hd p = CHR ''/'' then Clean_loop rooted (tl p) out dotdot
      else if dot_element p then Clean_loop rooted (tl p) out dotdot
      else if dotdot_element p then
        (if length out > dotdot then
           Clean_loop rooted (drop 2 p) (take (backtrack out dotdot (length out - 1)) out) dotdot
         else if \<not> rooted then
           (let out' = (if length out > 0 then out @ ''/'' else out) @ ''..''
            in Clean_loop rooted (drop 2 p) out' (length out'))
         else Clean_loop rooted (drop 2 p) out dotdot)
      else
        (let out' = (if rooted \<and> length out \<noteq> 1 \<or> \<not> rooted \<and> length out \<noteq> 0
                     then out @ ''/'' else out)
         in Clean_loop rooted (dropWhile (\<lambda>x. x \<noteq> CHR ''/'') p)
              (out' @ takeWhile (\<lambda>x. x \<noteq> CHR ''/'') p) dotdot))"
  by pat_completeness auto
termination
proof (relation "measure (\<lambda>(rooted, p, out, dotdot). length p)", goal_cases)
  case 1
  show ?case by simp
next
  case (2 rooted p out dotdot)
  then show ?case by (cases p) simp_all
next
  case (3 rooted p out dotdot)
  then show ?case by (cases p) simp_all
next
  case (4 rooted p out dotdot)
  then show ?case by (cases p) simp_all
next
  case (5 rooted p out dotdot x)
  then show ?case by (cases p) simp_all
next
  case (6 rooted p out dotdot)
  then show ?case by (cases p) simp_all
next
  case (7 rooted p out dotdot x)
  then obtain c r where p: "p = c # r" "c \<noteq> CHR ''/''"
    by (cases p) simp_all
  have "length (dropWhile (\<lambda>x. x \<noteq> CHR ''/'') r) \<le> length r"
    by (rule length_dropWhile_le)
  with p show ?case by simp
qed

declare Clean_loop.simps [simp del]

definition Clean :: "string \<Rightarrow> string" where
  "Clean p =
     (if p = [] then ''.''
      else
        let rooted = (hd p = CHR ''/'');
            out = Clean_loop rooted (if rooted then tl p else p) (if rooted then ''/'' else [])
                    (if rooted then 1 else 0)
        in if out = [] then ''.'' else out)"

text \<open>
  \<^verbatim>\<open>strings.Join(elems, sep)\<close>, and \<^verbatim>\<open>path.Join\<close>: from the first element that is
  not empty on, the elements are joined with slashes and the result is cleaned; when
  every element is empty the result is the empty string.
\<close>

fun strings_Join :: "string list \<Rightarrow> string \<Rightarrow> string" where
  "strings_Join [] sep = []"
| "strings_Join [e] sep = e"
| "strings_Join (e # es) sep = e @ sep @ strings_Join es sep"

fun Join :: "string list \<Rightarrow> string" where
  "Join [] = []"
| "Join (e # elems) = (if e \<noteq> [] then Clean (strings_Join (e # elems) ''/'') else Join elems)"

subsection \<open>\<^verbatim>\<open>RelativePathTo\<close>\<close>

text \<open>\<^verbatim>\<open>fmt.Sprintf("components/%s", c.Name)\<close> is the concatenation.\<close>

definition RelativePathTo :: "'v Component \<Rightarrow> string" where
  "RelativePathTo c =
     (if Method c = ''git'' then ''components/'' @ Name c
      else if Source c \<noteq> [] then Name c
      else ''./'')"

subsection \<open>\<^verbatim>\<open>LoadComponent\<close>, \<^verbatim>\<open>MergeConfigFile\<close>, \<^verbatim>\<open>LoadConfig\<close>\<close>

text \<open>
  \<^verbatim>\<open>LoadComponent\<close> returns \<^verbatim>\<open>(mergedComponent, err)\<close>; the model returns the error
  or the component.  \<^verbatim>\<open>mergedComponent\<close> starts as the zero value and
  \<^verbatim>\<open>json.Unmarshal\<close> fills it; then the two paths are overwritten with the receiver's
  and the receiver's \<^verbatim>\<open>Config\<close> is merged into the descriptor's.
\<close>

definition LoadComponent :: "('s, 'v) env \<Rightarrow> 's \<Rightarrow> 'v Component \<Rightarrow> error + 'v Component" where
  "LoadComponent E st c =
     (let componentJSONPath = Join [PhysicalPath c, ''component.json''] in
      case file_at E st componentJSONPath of
        NotExist \<Rightarrow> Inl (NotFound componentJSONPath)
      | Unreadable \<Rightarrow> Inl (ReadError componentJSONPath)
      | Contents componentJSON \<Rightarrow>
          (case unmarshal_component E componentJSON of
             None \<Rightarrow> Inl (ParseError componentJSONPath)
           | Some mergedComponent \<Rightarrow>
               Inr (Component (Name mergedComponent) (Source mergedComponent)
                      (Method mergedComponent) (Generator mergedComponent)
                      (Subcomponents mergedComponent) (Repo mergedComponent)
                      (Path mergedComponent) (PhysicalPath c) (LogicalPath c)
                      (Merge E (Config mergedComponent) (Config c))
                      (Manifest mergedComponent))))"

text \<open>
  \<^verbatim>\<open>MergeConfigFile\<close> and \<^verbatim>\<open>LoadConfig\<close> have a pointer receiver and return only an
  error; the model returns the error or the receiver as the call left it.
  \<^verbatim>\<open>c.Config.Merge(componentConfig)\<close> changes the field \<^verbatim>\<open>Config\<close> of the receiver and
  no other field.
\<close>

definition MergeConfigFile ::
    "('s, 'v) env \<Rightarrow> 's \<Rightarrow> 'v Component \<Rightarrow> string \<Rightarrow> error + 'v Component" where
  "MergeConfigFile E st c path =
     (case file_at E st path of
        NotExist \<Rightarrow> Inr c
      | Unreadable \<Rightarrow> Inl (ReadError path)
      | Contents configString \<Rightarrow>
          (case unmarshal_config E configString of
             None \<Rightarrow> Inl (ParseError path)
           | Some componentConfig \<Rightarrow>
               Inr (Component (Name c) (Source c) (Method c) (Generator c) (Subcomponents c)
                      (Repo c) (Path c) (PhysicalPath c) (LogicalPath c)
                      (Merge E (Config c) componentConfig) (Manifest c))))"

definition LoadConfig ::
    "('s, 'v) env \<Rightarrow> 's \<Rightarrow> 'v Component \<Rightarrow> string \<Rightarrow> error + 'v Component" where
  "LoadConfig E st c environment =
     (let environmentFileName = environment @ ''.json'';
          environmentConfigPath = Join [PhysicalPath c, ''config'', environmentFileName] in
      case MergeConfigFile E st c environmentConfigPath of
        Inl err \<Rightarrow> Inl err
      | Inr c' \<Rightarrow>
          (let commonPath = Join [PhysicalPath c', ''config'', ''common.json''] in
           case MergeConfigFile E st c' commonPath of
             Inl err \<Rightarrow> Inl err
           | Inr c'' \<Rightarrow> Inr c''))"

subsection \<open>\<^verbatim>\<open>Install\<close>\<close>

text \<open>
  \<open>run\<close> is \<^verbatim>\<open>exec.Command(...).Run()\<close>: it changes the world and may return an error.
  \<open>Install_loop\<close> is the \<^verbatim>\<open>for _, subcomponent := range c.Subcomponents\<close> loop; the call
  to the logger between the second and the third command has no effect on the result.
\<close>

fun Install_loop ::
    "(command \<Rightarrow> 's \<Rightarrow> error option \<times> 's) \<Rightarrow> string \<Rightarrow> 'v Component list \<Rightarrow> 's
       \<Rightarrow> error option \<times> 's" where
  "Install_loop run componentPath [] st = (None, st)"
| "Install_loop run componentPath (subcomponent # rest) st =
     (if Method subcomponent = ''git'' then
        (let componentsPath = componentPath @ ''/components'' in
         case run (Mkdir_p componentsPath) st of
           (Some err, st1) \<Rightarrow> (Some err, st1)
         | (None, st1) \<Rightarrow>
             (let subcomponentPath = Join [componentPath, RelativePathTo subcomponent] in
              case run (Rm_rf subcomponentPath) st1 of
                (Some err, st2) \<Rightarrow> (Some err, st2)
              | (None, st2) \<Rightarrow>
                  (case run (Git_clone (Source subcomponent) subcomponentPath) st2 of
                     (Some err, st3) \<Rightarrow> (Some err, st3)
                   | (None, st3) \<Rightarrow> Install_loop run componentPath rest st3)))
      else Install_loop run componentPath rest st)"

definition Install ::
    "(command \<Rightarrow> 's \<Rightarrow> error option \<times> 's) \<Rightarrow> 'v Component \<Rightarrow> string \<Rightarrow> 's
       \<Rightarrow> error option \<times> 's" where
  "Install run c componentPath st = Install_loop run componentPath (Subcomponents c) st"

subsection \<open>\<^verbatim>\<open>IterateComponentTree\<close>\<close>

text \<open>
  The composite literal \<^verbatim>\<open>componentToQueue\<close>.  A lookup in a Go map yields the zero
  value for a key that is not there.
\<close>

definition componentToQueue :: "'v Component \<Rightarrow> 'v Component \<Rightarrow> 'v Component" where
  "componentToQueue component subcomponent =
     Component (Name subcomponent) [] [] [] [] [] []
       (Join [PhysicalPath component, RelativePathTo subcomponent])
       (Join [LogicalPath component, Name subcomponent])
       (case fmlookup (cfg_Subcomponents (Config component)) (Name subcomponent) of
          None \<Rightarrow> zero_config
        | Some cc \<Rightarrow> cc)
       []"

text \<open>The inner loop \<^verbatim>\<open>for _, subcomponent := range component.Subcomponents\<close>.\<close>

fun enqueue :: "'v Component \<Rightarrow> 'v Component list \<Rightarrow> 'v Component list \<Rightarrow> 'v Component list" where
  "enqueue component [] queue = queue"
| "enqueue component (subcomponent # rest) queue =
     (if Source subcomponent = [] then enqueue component rest queue
      else enqueue component rest (queue @ [componentToQueue component subcomponent]))"

text \<open>
  The loop \<^verbatim>\<open>for len(queue) != 0\<close>.  Nothing bounds the number of its rounds, so it is
  a partial function: \<open>None\<close> is a run that never returns.  A run that returns yields
  the pair of the source, \<^verbatim>\<open>(completedComponents, err)\<close> with \<^verbatim>\<open>nil\<close> the empty list,
  and the world as the callbacks left it.
\<close>

partial_function (option) iterate ::
    "('s, 'v) env \<Rightarrow> ('s, 'v) ComponentIteration \<Rightarrow> string \<Rightarrow> 'v Component list
       \<Rightarrow> 'v Component list \<Rightarrow> 's \<Rightarrow> ('v Component list \<times> error option \<times> 's) option" where
  "iterate E componentIteration environment queue completedComponents st =
     (case queue of
        [] \<Rightarrow> Some (completedComponents, None, st)
      | stub # queue' \<Rightarrow>
          (case LoadComponent E st stub of
             Inl err \<Rightarrow> Some ([], Some err, st)
           | Inr loaded \<Rightarrow>
               (case LoadConfig E st loaded environment of
                  Inl err \<Rightarrow> Some ([], Some err, st)
                | Inr configured \<Rightarrow>
                    (case componentIteration (PhysicalPath configured) configured st of
                       (Some err, component, st') \<Rightarrow> Some ([], Some err, st')
                     | (None, component, st') \<Rightarrow>
                         iterate E componentIteration environment
                           (enqueue component (Subcomponents component) queue')
                           (completedComponents @ [component]) st'))))"

text \<open>The first element of the queue: the synthetic root.\<close>

definition root_stub :: "string \<Rightarrow> 'v Component" where
  "root_stub startingPath =
     Component [] [] [] [] [] [] [] startingPath ''./'' (ComponentConfig fmempty fmempty) []"

definition IterateComponentTree ::
    "('s, 'v) env \<Rightarrow> string \<Rightarrow> string \<Rightarrow> ('s, 'v) ComponentIteration \<Rightarrow> 's
       \<Rightarrow> ('v Component list \<times> error option \<times> 's) option" where
  "IterateComponentTree E startingPath environment componentIteration st =
     iterate E componentIteration environment [root_stub startingPath] [] st"

section \<open>Notions used to state the properties\<close>

subsection \<open>Visits, stubs and trees\<close>

text \<open>
  One round of the loop on a dequeued stub: load the descriptor, load the overlays,
  call the callback.  The result is the error of the first step that fails, or the
  component that is appended to \<^verbatim>\<open>completedComponents\<close>.
\<close>

definition visit ::
    "('s, 'v) env \<Rightarrow> ('s, 'v) ComponentIteration \<Rightarrow> string \<Rightarrow> 's \<Rightarrow> 'v Component
       \<Rightarrow> (error + 'v Component) \<times> 's" where
  "visit E componentIteration environment st stub =
     (case LoadComponent E st stub of
        Inl err \<Rightarrow> (Inl err, st)
      | Inr loaded \<Rightarrow>
          (case LoadConfig E st loaded environment of
             Inl err \<Rightarrow> (Inl err, st)
           | Inr configured \<Rightarrow>
               (case componentIteration (PhysicalPath configured) configured st of
                  (Some err, component, st') \<Rightarrow> (Inl err, st')
                | (None, component, st') \<Rightarrow> (Inr component, st'))))"

text \<open>\<open>c\<close> is what a visit of \<open>stub\<close> completes, in some world.\<close>

definition visited_by ::
    "('s, 'v) env \<Rightarrow> ('s, 'v) ComponentIteration \<Rightarrow> string \<Rightarrow> 'v Component \<Rightarrow> 'v Component
       \<Rightarrow> bool" where
  "visited_by E cb environment stub c = (\<exists>s s'. visit E cb environment s stub = (Inr c, s'))"

text \<open>
  The stubs a completed component stands for: one for each of its declarations with a
  source, in the order of the declarations.
\<close>

definition stubs_of :: "'v Component \<Rightarrow> 'v Component list" where
  "stubs_of component =
     map (componentToQueue component) (filter (\<lambda>d. Source d \<noteq> []) (Subcomponents component))"

text \<open>
  A finite component tree: a completed component and the trees of its declarations that
  are not inline.  \<open>tree_size\<close> counts its nodes, \<open>nodes\<close> lists them.
\<close>

datatype 'v component_tree = Tree (node: "'v Component") (children: "'v component_tree list")

fun tree_size :: "'v component_tree \<Rightarrow> nat" where
  "tree_size (Tree c ts) = Suc (sum_list (map tree_size ts))"

fun nodes :: "'v component_tree \<Rightarrow> 'v Component list" where
  "nodes (Tree c ts) = c # concat (map nodes ts)"

text \<open>
  Breadth-first order of a forest: its roots from left to right, then the breadth-first
  order of the forest of their children.
\<close>

function levels :: "'v component_tree list \<Rightarrow> 'v Component list" where
  "levels ts = (if ts = [] then [] else map node ts @ levels (concat (map children ts)))"
  by pat_completeness auto
termination
proof (relation "measure (\<lambda>ts. sum_list (map tree_size ts))", goal_cases)
  case 1
  show ?case by simp
next
  case (2 ts)
  have "sum_list (map tree_size us) = length us + sum_list (map tree_size (concat (map children us)))"
    for us :: "'a component_tree list"
  proof (induction us)
    case Nil
    show ?case by simp
  next
    case (Cons u us)
    then show ?case by (cases u) simp
  qed
  from this [of ts] 2 show ?case by simp
qed

declare levels.simps [simp del]

text \<open>The order in which a queue that starts as the forest \<open>ts\<close> hands out the nodes.\<close>

function queue_order :: "'v component_tree list \<Rightarrow> 'v Component list" where
  "queue_order [] = []"
| "queue_order (Tree c ts # rest) = c # queue_order (rest @ ts)"
  by pat_completeness auto
termination
  by (relation "measure (\<lambda>ts. sum_list (map tree_size ts))") simp_all

text \<open>
  The files and the callback present the tree \<open>Tree c ts\<close> at \<open>stub\<close>: whenever the stub
  is visited, the visit completes \<open>c\<close>, and the stubs of \<open>c\<close> present the subtrees
  \<open>ts\<close>, one each.
\<close>

fun realises ::
    "('s, 'v) env \<Rightarrow> ('s, 'v) ComponentIteration \<Rightarrow> string \<Rightarrow> 'v Component
       \<Rightarrow> 'v component_tree \<Rightarrow> bool" where
  "realises E cb environment stub (Tree c ts) =
     ((\<forall>st. \<exists>st'. visit E cb environment st stub = (Inr c, st')) \<and>
      list_all2 (realises E cb environment) (stubs_of c) ts)"

text \<open>
  A tree has the shape of its declarations when every node has as many children as its
  component has declarations with a source.
\<close>

fun well_shaped :: "'v component_tree \<Rightarrow> bool" where
  "well_shaped (Tree c ts) =
     (length ts = length (filter (\<lambda>d. Source d \<noteq> []) (Subcomponents c)) \<and>
      (\<forall>t \<in> set ts. well_shaped t))"

text \<open>
  The state of the loop after \<open>n\<close> rounds that all succeeded: the queue, the completed
  components and the world.  \<open>None\<close> when the loop has ended or failed before.
\<close>

fun after_rounds ::
    "('s, 'v) env \<Rightarrow> ('s, 'v) ComponentIteration \<Rightarrow> string \<Rightarrow> nat \<Rightarrow> 'v Component list
       \<Rightarrow> 'v Component list \<Rightarrow> 's \<Rightarrow> ('v Component list \<times> 'v Component list \<times> 's) option" where
  "after_rounds E cb environment 0 queue completed st = Some (queue, completed, st)"
| "after_rounds E cb environment (Suc n) [] completed st = None"
| "after_rounds E cb environment (Suc n) (stub # queue) completed st =
     (case visit E cb environment st stub of
        (Inl err, st') \<Rightarrow> None
      | (Inr component, st') \<Rightarrow>
          after_rounds E cb environment n (enqueue component (Subcomponents component) queue)
            (completed @ [component]) st')"

text \<open>
  Visiting the stubs of a list one after the other, each exactly once, every visit in
  the world the one before left: the components completed, the error of the first visit
  that fails (the visits stop there) and the world at the end.
\<close>

fun visit_all ::
    "('s, 'v) env \<Rightarrow> ('s, 'v) ComponentIteration \<Rightarrow> string \<Rightarrow> 's \<Rightarrow> 'v Component list
       \<Rightarrow> 'v Component list \<times> error option \<times> 's" where
  "visit_all E cb environment st [] = ([], None, st)"
| "visit_all E cb environment st (stub # stubs) =
     (case visit E cb environment st stub of
        (Inl err, st') \<Rightarrow> ([], Some err, st')
      | (Inr component, st') \<Rightarrow>
          (case visit_all E cb environment st' stubs of
             (components, result, st'') \<Rightarrow> (component # components, result, st'')))"

text \<open>
  The files and the callback present the forest \<open>forest\<close> at the stubs \<open>queue\<close>, from
  the world \<open>st\<close> to the world \<open>final\<close>, when the callback may change the world (an
  installing callback creates the descriptors its children are loaded from).  The
  stubs are visited in the order of the queue, each in the world the visits before it
  left: the visit of the first stub completes the root \<open>c\<close> of the first tree, that
  tree has one subtree for each stub of \<open>c\<close>, and the stubs of \<open>c\<close> wait behind the
  others of the queue as its subtrees do behind the other trees.
\<close>

function (sequential) presents ::
    "('s, 'v) env \<Rightarrow> ('s, 'v) ComponentIteration \<Rightarrow> string \<Rightarrow> 's \<Rightarrow> 'v Component list
       \<Rightarrow> 'v component_tree list \<Rightarrow> 's \<Rightarrow> bool" where
  "presents E cb environment st [] [] final = (final = st)"
| "presents E cb environment st (stub # queue) (Tree c ts # rest) final =
     (case visit E cb environment st stub of
        (Inl err, st') \<Rightarrow> False
      | (Inr component, st') \<Rightarrow>
          component = c \<and> length ts = length (stubs_of c) \<and>
          presents E cb environment st' (queue @ stubs_of c) (rest @ ts) final)"
| "presents E cb environment st queue forest final = False"
  by pat_completeness auto
termination
  by (relation "measure (\<lambda>(E, cb, environment, st, queue, forest, final).
                          sum_list (map tree_size forest))") simp_all

subsection \<open>Installation steps\<close>

text \<open>Running a list of commands in order, up to the first that fails.\<close>

fun run_steps ::
    "(command \<Rightarrow> 's \<Rightarrow> error option \<times> 's) \<Rightarrow> command list \<Rightarrow> 's \<Rightarrow> error option \<times> 's" where
  "run_steps run [] st = (None, st)"
| "run_steps run (cmd # cmds) st =
     (case run cmd st of
        (Some err, st') \<Rightarrow> (Some err, st')
      | (None, st') \<Rightarrow> run_steps run cmds st')"

text \<open>
  The three steps for one subcomponent: ensure the \<^verbatim>\<open>components\<close> directory under the
  install path, remove the target directory, clone the source into it.
\<close>

definition install_steps :: "string \<Rightarrow> 'v Component \<Rightarrow> command list" where
  "install_steps installPath d =
     [Mkdir_p (installPath @ ''/components''),
      Rm_rf (Join [installPath, ''components/'' @ Name d]),
      Git_clone (Source d) (Join [installPath, ''components/'' @ Name d])]"

text \<open>A world that is the log of the commands run so far; no command fails.\<close>

definition record_command :: "command \<Rightarrow> command list \<Rightarrow> error option \<times> command list" where
  "record_command cmd log = (None, log @ [cmd])"

subsection \<open>Paths\<close>





subsection \<open>The merge engine\<close>

text \<open>
  Modelled from the spec: \<^verbatim>\<open>ComponentConfig.Merge\<close>, which \<^verbatim>\<open>component.go\<close> calls and
  another file of the repository defines.  The specification describes it as the
  operation that combines two configuration trees (own values and nested per-child
  override maps) into one, key by key, and leaves open whether a later overlay wins or
  only fills gaps; \<open>policy\<close> names the two choices.  Own values: the union of the two
  maps, the policy deciding a key both have.  Children: a child of both is merged
  recursively, a child of one of them is taken as it is.
\<close>

datatype policy = OverlayWins | FillGaps

primrec spec_Merge ::
    "policy \<Rightarrow> 'v ComponentConfig \<Rightarrow> 'v ComponentConfig \<Rightarrow> 'v ComponentConfig" where
  "spec_Merge pol (ComponentConfig own subs) = (\<lambda>new.
     ComponentConfig
       (case pol of
          OverlayWins \<Rightarrow> own ++\<^sub>f cfg_Config new
        | FillGaps \<Rightarrow> cfg_Config new ++\<^sub>f own)
       (fmmap_keys (\<lambda>k merge_into. merge_into (fmlookup (cfg_Subcomponents new) k))
          (fmmap (\<lambda>child overlay. case overlay of None \<Rightarrow> child
                                   | Some c \<Rightarrow> spec_Merge pol child c) subs)
        ++\<^sub>f fmfilter (\<lambda>k. k |\<notin>| fmdom subs) (cfg_Subcomponents new)))"

section \<open>Concrete worlds\<close>

text \<open>
  Small file systems on which the properties below are exercised.  A descriptor or an
  overlay file holds a short tag; the decoders map the tag to the value
  \<^verbatim>\<open>json.Unmarshal\<close> would produce, and to an error for any other contents.  The
  world never changes, so its state is \<open>unit\<close>, and the merge engine is the one
  modelled above with the policy that the overlay wins.
\<close>

text \<open>The component \<open>d\<close> with the two paths the traversal assigns to it.\<close>

definition placed :: "'v Component \<Rightarrow> string \<Rightarrow> string \<Rightarrow> 'v Component" where
  "placed d physicalPath logicalPath =
     Component (Name d) (Source d) (Method d) (Generator d) (Subcomponents d) (Repo d) (Path d)
       physicalPath logicalPath (Config d) (Manifest d)"

definition world ::
    "(string \<Rightarrow> file_state) \<Rightarrow> (string \<Rightarrow> nat Component option)
       \<Rightarrow> (string \<Rightarrow> nat ComponentConfig option) \<Rightarrow> ('s, nat) env" where
  "world files decode decode_config =
     \<lparr>file_at = (\<lambda>st. files), unmarshal_component = decode,
      unmarshal_config = decode_config, Merge = spec_Merge OverlayWins\<rparr>"

text \<open>A callback that does nothing, and one that always fails.\<close>

definition keep :: "(unit, nat) ComponentIteration" where
  "keep path c st = (None, c, st)"

definition refuse :: "(unit, nat) ComponentIteration" where
  "refuse path c st = (Some (Failure ''refused''), c, st)"

text \<open>
  The demo tree: the root declares an inline subcomponent \<^verbatim>\<open>assets\<close>, a git
  subcomponent \<^verbatim>\<open>web\<close> and a local subcomponent \<^verbatim>\<open>db\<close>; \<^verbatim>\<open>web\<close> declares a git
  subcomponent \<^verbatim>\<open>api\<close>.
\<close>

definition demo_api :: "nat Component" where
  "demo_api = component_literal ''api'' ''https://example/api.git'' ''git''"

definition demo_db :: "nat Component" where
  "demo_db = component_literal ''db'' ''./db'' ''local''"

definition demo_web :: "nat Component" where
  "demo_web =
     Component ''web'' ''https://example/web.git'' ''git'' [] [demo_api] [] [] [] [] zero_config []"

definition demo_root :: "nat Component" where
  "demo_root =
     Component ''root'' [] [] []
       [component_literal ''assets'' [] [],
        component_literal ''web'' ''https://example/web.git'' ''git'',
        component_literal ''db'' ''./db'' ''local'']
       [] [] [] [] zero_config []"

definition demo_decode :: "string \<Rightarrow> nat Component option" where
  "demo_decode b =
     (if b = ''root'' then Some demo_root
      else if b = ''web'' then Some demo_web
      else if b = ''db'' then Some demo_db
      else if b = ''api'' then Some demo_api
      else None)"

definition demo_files :: "string \<Rightarrow> file_state" where
  "demo_files p =
     (if p = ''/r/component.json'' then Contents ''root''
      else if p = ''/r/components/web/component.json'' then Contents ''web''
      else if p = ''/r/db/component.json'' then Contents ''db''
      else if p = ''/r/components/web/components/api/component.json'' then Contents ''api''
      else NotExist)"

definition demo_env :: "(unit, nat) env" where
  "demo_env = world demo_files demo_decode (\<lambda>b. None)"

definition demo_tree :: "nat component_tree" where
  "demo_tree =
     Tree (placed demo_root ''/r'' ''./'')
       [Tree (placed demo_web ''/r/components/web'' ''web'')
          [Tree (placed demo_api ''/r/components/web/components/api'' ''web/api'') []],
        Tree (placed demo_db ''/r/db'' ''db'') []]"

definition demo_completed :: "nat Component list" where
  "demo_completed =
     [placed demo_root ''/r'' ''./'', placed demo_web ''/r/components/web'' ''web'',
      placed demo_db ''/r/db'' ''db'',
      placed demo_api ''/r/components/web/components/api'' ''web/api'']"

text \<open>The same descriptors when only the root has been checked out.\<close>

definition root_only_files :: "string \<Rightarrow> file_state" where
  "root_only_files p = (if p = ''/r/component.json'' then Contents ''root'' else NotExist)"

definition root_only_env :: "('s, nat) env" where
  "root_only_env = world root_only_files demo_decode (\<lambda>b. None)"

text \<open>
  The root with its two overlay files, \<^verbatim>\<open>{"Config":{"port":80}}\<close> for production and
  \<^verbatim>\<open>{"Config":{"port":8080,"debug":0}}\<close> as the common one.
\<close>

definition production_config :: "nat ComponentConfig" where
  "production_config = ComponentConfig (fmupd ''port'' 80 fmempty) fmempty"

definition common_config :: "nat ComponentConfig" where
  "common_config = ComponentConfig (fmupd ''port'' 8080 (fmupd ''debug'' 0 fmempty)) fmempty"

definition overlay_decode :: "string \<Rightarrow> nat ComponentConfig option" where
  "overlay_decode b =
     (if b = ''production'' then Some production_config
      else if b = ''common'' then Some common_config
      else None)"

definition overlay_files :: "string \<Rightarrow> file_state" where
  "overlay_files p =
     (if p = ''/r/component.json'' then Contents ''root''
      else if p = ''/r/config/production.json'' then Contents ''production''
      else if p = ''/r/config/common.json'' then Contents ''common''
      else NotExist)"

definition overlay_env :: "(unit, nat) env" where
  "overlay_env = world overlay_files demo_decode overlay_decode"

text \<open>
  A damaged checkout: the common overlay of the root is not JSON, the production overlay
  cannot be read, and the descriptor of \<^verbatim>\<open>db\<close> is not JSON.
\<close>

definition damaged_files :: "string \<Rightarrow> file_state" where
  "damaged_files p =
     (if p = ''/r/component.json'' then Contents ''root''
      else if p = ''/r/config/common.json'' then Contents ''{''
      else if p = ''/r/config/staging.json'' then Unreadable
      else if p = ''/r/db/component.json'' then Contents ''{''
      else NotExist)"

definition damaged_env :: "(unit, nat) env" where
  "damaged_env = world damaged_files demo_decode overlay_decode"

text \<open>A root that declares the same git subcomponent twice.\<close>

definition twin_web :: "nat Component" where
  "twin_web = component_literal ''web'' ''https://example/web.git'' ''git''"

definition twin_root :: "nat Component" where
  "twin_root = Component ''root'' [] [] [] [twin_web, twin_web] [] [] [] [] zero_config []"

definition twin_decode :: "string \<Rightarrow> nat Component option" where
  "twin_decode b =
     (if b = ''root'' then Some twin_root
      else if b = ''web'' then Some twin_web
      else None)"

definition twin_files :: "string \<Rightarrow> file_state" where
  "twin_files p =
     (if p = ''/r/component.json'' then Contents ''root''
      else if p = ''/r/components/web/component.json'' then Contents ''web''
      else NotExist)"

definition twin_env :: "('s, nat) env" where
  "twin_env = world twin_files twin_decode (\<lambda>b. None)"

text \<open>
  A descriptor that declares paths of its own, next to a descriptor that is not JSON and
  one that cannot be read; and a stub with a pending configuration from its parent.
\<close>

definition stray_descriptor :: "nat Component" where
  "stray_descriptor =
     Component ''web'' ''https://example/web.git'' ''git'' ''helm'' [] ''repo'' ''charts/web''
       ''/elsewhere'' ''not/this'' production_config ''manifest''"

definition stray_env :: "(unit, nat) env" where
  "stray_env =
     world (\<lambda>p. if p = ''/r/components/web/component.json'' then Contents ''web''
                 else if p = ''/r/db/component.json'' then Contents ''{''
                 else if p = ''/r/cache/component.json'' then Unreadable
                 else NotExist)
       (\<lambda>b. if b = ''web'' then Some stray_descriptor else None) (\<lambda>b. None)"

definition pending_stub :: "string \<Rightarrow> string \<Rightarrow> nat Component" where
  "pending_stub physicalPath logicalPath =
     Component ''web'' [] [] [] [] [] [] physicalPath logicalPath common_config []"

text \<open>A command runner that logs every command and fails on the clone.\<close>

definition failing_clone :: "command \<Rightarrow> command list \<Rightarrow> error option \<times> command list" where
  "failing_clone cmd log =
     (case cmd of
        Git_clone source target \<Rightarrow> (Some (Failure ''clone failed''), log @ [cmd])
      | _ \<Rightarrow> (None, log @ [cmd]))"

text \<open>A callback that counts its calls in the world.\<close>

definition counting :: "(nat, nat) ComponentIteration" where
  "counting path c calls = (None, c, Suc calls)"

text \<open>
  The installing traversal.  The world is the list of the directories cloned so far;
  the callback installs the component it is given, and the descriptors of \<^verbatim>\<open>web\<close> and
  \<^verbatim>\<open>api\<close> are there only once their directory has been cloned.
\<close>

definition clone_run :: "command \<Rightarrow> string list \<Rightarrow> error option \<times> string list" where
  "clone_run cmd cloned =
     (case cmd of
        Mkdir_p dir \<Rightarrow> (None, cloned)
      | Rm_rf target \<Rightarrow> (None, removeAll target cloned)
      | Git_clone source target \<Rightarrow> (None, target # cloned))"

definition installing :: "(string list, nat) ComponentIteration" where
  "installing path c cloned =
     (case Install clone_run c path cloned of (err, cloned') \<Rightarrow> (err, c, cloned'))"

definition install_files :: "string list \<Rightarrow> string \<Rightarrow> file_state" where
  "install_files cloned p =
     (if p = ''/r/component.json'' then Contents ''root''
      else if p = ''/r/db/component.json'' then Contents ''db''
      else if p = ''/r/components/web/component.json'' \<and> ''/r/components/web'' \<in> set cloned
        then Contents ''web''
      else if p = ''/r/components/web/components/api/component.json'' \<and>
              ''/r/components/web/components/api'' \<in> set cloned
        then Contents ''api''
      else NotExist)"

definition install_env :: "(string list, nat) env" where
  "install_env =
     \<lparr>file_at = install_files, unmarshal_component = demo_decode,
      unmarshal_config = (\<lambda>b. None), Merge = spec_Merge OverlayWins\<rparr>"

section \<open>Auxiliary facts\<close>

subsection \<open>The loop of \<^verbatim>\<open>IterateComponentTree\<close>\<close>

lemma iterate_Nil:
  "iterate E cb environment [] acc st = Some (acc, None, st)"
  by (subst iterate.simps) simp

lemma iterate_Cons:
  "iterate E cb environment (stub # queue) acc st =
     (case visit E cb environment st stub of
        (Inl err, st') \<Rightarrow> Some ([], Some err, st')
      | (Inr c, st') \<Rightarrow>
          iterate E cb environment (enqueue c (Subcomponents c) queue) (acc @ [c]) st')"
  by (subst iterate.simps) (simp add: visit_def split: sum.splits prod.splits option.splits)

lemma enqueue_append:
  "enqueue c ds queue = queue @ map (componentToQueue c) (filter (\<lambda>d. Source d \<noteq> []) ds)"
  by (induction ds arbitrary: queue) simp_all

lemma enqueue_stubs_of: "enqueue c (Subcomponents c) queue = queue @ stubs_of c"
  by (simp add: enqueue_append stubs_of_def)

lemma iterate_error_empty_aux:
  assumes "iterate E cb environment queue acc st = Some r"
  shows "fst (snd r) \<noteq> None \<longrightarrow> fst r = []"
  by (rule iterate.raw_induct
        [where P = "\<lambda>E cb environment queue acc st r. fst (snd r) \<noteq> None \<longrightarrow> fst r = []",
         OF _ assms])
     (auto split: list.splits sum.splits prod.splits option.splits)

lemma iterate_error_empty:
  assumes "iterate E cb environment queue acc st = Some (cs, Some err, st')"
  shows "cs = []"
  using iterate_error_empty_aux [OF assms] by simp


lemma iterate_success_aux:
  assumes "iterate E cb environment queue acc st = Some r"
  shows "fst (snd r) = None \<longrightarrow>
          (\<exists>new. fst r = acc @ new \<and>
             list_all2 (visited_by E cb environment) (queue @ concat (map stubs_of new)) new)"
proof (rule iterate.raw_induct
        [where P = "\<lambda>E cb environment queue acc st r. fst (snd r) = None \<longrightarrow>
          (\<exists>new. fst r = acc @ new \<and>
             list_all2 (visited_by E cb environment) (queue @ concat (map stubs_of new)) new)",
         OF _ assms], goal_cases)
  case (1 iterate E cb environment queue acc st r)
  show ?case
  proof (cases queue)
    case Nil
    with 1(2) show ?thesis by auto
  next
    case (Cons stub queue')
    show ?thesis
    proof (cases "visit E cb environment st stub")
      case (Pair res st1)
      show ?thesis
      proof (cases res)
        case (Inl err)
        with 1(2) Cons Pair have "r = ([], Some err, st1)"
          by (auto simp: visit_def split: sum.splits prod.splits option.splits)
        then show ?thesis by simp
      next
        case (Inr c)
        with 1(2) Cons Pair
        have rec: "iterate E cb environment (enqueue c (Subcomponents c) queue') (acc @ [c]) st1 = Some r"
          by (auto simp: visit_def split: sum.splits prod.splits option.splits)
        show ?thesis
        proof
          assume ok: "fst (snd r) = None"
          from 1(1) [OF rec] ok obtain new where
            new: "fst r = (acc @ [c]) @ new"
              "list_all2 (visited_by E cb environment)
                 (enqueue c (Subcomponents c) queue' @ concat (map stubs_of new)) new"
            by blast
          have "visited_by E cb environment stub c"
            unfolding visited_by_def using Pair Inr by blast
          with new Cons have "fst r = acc @ (c # new) \<and>
             list_all2 (visited_by E cb environment) (queue @ concat (map stubs_of (c # new))) (c # new)"
            by (simp add: enqueue_stubs_of)
          then show "\<exists>new. fst r = acc @ new \<and>
             list_all2 (visited_by E cb environment) (queue @ concat (map stubs_of new)) new"
            by blast
        qed
      qed
    qed
  qed
qed

lemma iterate_success:
  assumes "iterate E cb environment queue acc st = Some (cs, None, st')"
  shows "\<exists>new. cs = acc @ new \<and>
             list_all2 (visited_by E cb environment) (queue @ concat (map stubs_of new)) new"
  using iterate_success_aux [OF assms] by simp

subsection \<open>Breadth-first order\<close>

lemma forest_size_children:
  "sum_list (map tree_size us) = length us + sum_list (map tree_size (concat (map children us)))"
proof (induction us)
  case Nil
  show ?case by simp
next
  case (Cons u us)
  then show ?case by (cases u) simp
qed

lemma iterate_queue_order:
  "list_all2 (realises E cb environment) queue forest \<Longrightarrow>
     \<exists>st'. iterate E cb environment queue acc st = Some (acc @ queue_order forest, None, st')"
proof (induction forest arbitrary: queue acc st rule: queue_order.induct)
  case 1
  then show ?case by (simp add: iterate_Nil)
next
  case (2 c ts rest)
  from 2(2) obtain stub queue' where
    queue: "queue = stub # queue'" and
    stub: "realises E cb environment stub (Tree c ts)" and
    rest: "list_all2 (realises E cb environment) queue' rest"
    by (auto simp: list_all2_Cons2)
  from stub obtain st1 where st1: "visit E cb environment st stub = (Inr c, st1)"
    by auto
  from stub rest have "list_all2 (realises E cb environment) (queue' @ stubs_of c) (rest @ ts)"
    by (auto intro: list_all2_appendI)
  from 2(1) [OF this, of "acc @ [c]" st1] queue st1 show ?case
    by (simp add: iterate_Cons enqueue_stubs_of)
qed

lemma queue_order_append:
  "queue_order (ts @ us) = map node ts @ queue_order (us @ concat (map children ts))"
proof (induction ts arbitrary: us)
  case Nil
  show ?case by simp
next
  case (Cons t ts)
  obtain c cs where t: "t = Tree c cs" by (cases t)
  from Cons [of "us @ cs"] show ?case by (simp add: t)
qed

lemma queue_order_levels: "queue_order ts = levels ts"
proof (induction ts rule: levels.induct)
  case (1 ts)
  show ?case
  proof (cases "ts = []")
    case True
    then show ?thesis by (simp add: levels.simps)
  next
    case False
    with 1 have "queue_order (concat (map children ts)) = levels (concat (map children ts))"
      by simp
    with queue_order_append [of ts "[]"] False show ?thesis
      by (subst levels.simps) simp
  qed
qed

lemma length_levels: "length (levels ts) = sum_list (map tree_size ts)"
proof (induction ts rule: levels.induct)
  case (1 ts)
  show ?case
  proof (cases "ts = []")
    case True
    then show ?thesis by (simp add: levels.simps)
  next
    case False
    with 1 forest_size_children [of ts] show ?thesis
      by (subst levels.simps) simp
  qed
qed

lemma mset_nodes_children:
  "mset (concat (map nodes ts)) =
     mset (map node ts) + mset (concat (map nodes (concat (map children ts))))"
proof (induction ts)
  case Nil
  show ?case by simp
next
  case (Cons t ts)
  then show ?case by (cases t) simp
qed

lemma mset_levels: "mset (levels ts) = mset (concat (map nodes ts))"
proof (induction ts rule: levels.induct)
  case (1 ts)
  show ?case
  proof (cases "ts = []")
    case True
    then show ?thesis by (simp add: levels.simps)
  next
    case False
    with 1 mset_nodes_children [of ts] show ?thesis
      by (subst levels.simps) simp
  qed
qed


subsection \<open>Rounds, chains of visits and presented trees\<close>

lemma after_rounds_iterate:
  "after_rounds E cb environment n queue acc st = Some (queue', acc', st') \<Longrightarrow>
     iterate E cb environment queue acc st = iterate E cb environment queue' acc' st'"
proof (induction n arbitrary: queue acc st)
  case 0
  then show ?case by simp
next
  case (Suc n)
  then obtain stub rest where queue: "queue = stub # rest"
    by (cases queue) simp_all
  obtain res st1 where v: "visit E cb environment st stub = (res, st1)"
    by (cases "visit E cb environment st stub")
  with Suc.prems queue obtain c where c: "res = Inr c"
    by (cases res) simp_all
  from Suc.prems queue v c
  have "after_rounds E cb environment n (enqueue c (Subcomponents c) rest) (acc @ [c]) st1 =
          Some (queue', acc', st')"
    by simp
  from Suc.IH [OF this] queue v c show ?case
    by (simp add: iterate_Cons)
qed

lemma visit_Inl_iff:
  "visit E cb environment st stub = (Inl err, st') \<longleftrightarrow>
     (LoadComponent E st stub = Inl err \<and> st' = st) \<or>
     (\<exists>loaded. LoadComponent E st stub = Inr loaded \<and>
        LoadConfig E st loaded environment = Inl err \<and> st' = st) \<or>
     (\<exists>loaded configured c. LoadComponent E st stub = Inr loaded \<and>
        LoadConfig E st loaded environment = Inr configured \<and>
        cb (PhysicalPath configured) configured st = (Some err, c, st'))"
  by (auto simp: visit_def split: sum.splits prod.splits option.splits)

lemma iterate_error_source_aux:
  assumes "iterate E cb environment queue acc st = Some r"
  shows "\<forall>err. fst (snd r) = Some err \<longrightarrow>
           (\<exists>n stub queue' acc' s.
              after_rounds E cb environment n queue acc st = Some (stub # queue', acc', s) \<and>
              visit E cb environment s stub = (Inl err, snd (snd r)))"
proof (rule iterate.raw_induct
        [where P = "\<lambda>E cb environment queue acc st r. \<forall>err. fst (snd r) = Some err \<longrightarrow>
           (\<exists>n stub queue' acc' s.
              after_rounds E cb environment n queue acc st = Some (stub # queue', acc', s) \<and>
              visit E cb environment s stub = (Inl err, snd (snd r)))",
         OF _ assms], goal_cases)
  case (1 iterate E cb environment queue acc st r)
  show ?case
  proof (cases queue)
    case Nil
    with 1(2) show ?thesis by auto
  next
    case (Cons stub rest)
    obtain res st1 where v: "visit E cb environment st stub = (res, st1)"
      by (cases "visit E cb environment st stub")
    show ?thesis
    proof (cases res)
      case (Inl e)
      with 1(2) Cons v have r: "r = ([], Some e, st1)"
        by (auto simp: visit_def split: sum.splits prod.splits option.splits)
      have "after_rounds E cb environment 0 queue acc st = Some (stub # rest, acc, st)"
        using Cons by simp
      with r v Inl show ?thesis by (intro allI impI exI [of _ 0]) auto
    next
      case (Inr c)
      with 1(2) Cons v
      have rec: "iterate E cb environment (enqueue c (Subcomponents c) rest) (acc @ [c]) st1 = Some r"
        by (auto simp: visit_def split: sum.splits prod.splits option.splits)
      show ?thesis
      proof (intro allI impI)
        fix err
        assume "fst (snd r) = Some err"
        with 1(1) [OF rec] obtain n stub' queue' acc' s where
          n: "after_rounds E cb environment n (enqueue c (Subcomponents c) rest) (acc @ [c]) st1 =
                Some (stub' # queue', acc', s)"
             "visit E cb environment s stub' = (Inl err, snd (snd r))"
          by blast
        from n(1) Cons v Inr
        have "after_rounds E cb environment (Suc n) queue acc st = Some (stub' # queue', acc', s)"
          by simp
        with n(2) show "\<exists>n stub queue' acc' s.
              after_rounds E cb environment n queue acc st = Some (stub # queue', acc', s) \<and>
              visit E cb environment s stub = (Inl err, snd (snd r))"
          by blast
      qed
    qed
  qed
qed

lemma iterate_error_source:
  assumes "iterate E cb environment queue acc st = Some (cs, Some err, st')"
  shows "\<exists>n stub queue' acc' s.
              after_rounds E cb environment n queue acc st = Some (stub # queue', acc', s) \<and>
              visit E cb environment s stub = (Inl err, st')"
  using iterate_error_source_aux [OF assms] by simp


lemma after_rounds_visits:
  "after_rounds E cb environment n queue acc st = Some (queue', acc', st') \<Longrightarrow>
     \<exists>new. acc' = acc @ new \<and> length new = n \<and>
       drop n (queue @ concat (map stubs_of new)) = queue' \<and>
       visit_all E cb environment st (take n (queue @ concat (map stubs_of new))) = (new, None, st')"
proof (induction n arbitrary: queue acc st)
  case 0
  then show ?case by simp
next
  case (Suc n)
  then obtain stub rest where queue: "queue = stub # rest"
    by (cases queue) simp_all
  obtain res st1 where v: "visit E cb environment st stub = (res, st1)"
    by (cases "visit E cb environment st stub")
  with Suc.prems queue obtain c where c: "res = Inr c"
    by (cases res) simp_all
  from Suc.prems queue v c
  have "after_rounds E cb environment n (rest @ stubs_of c) (acc @ [c]) st1 =
          Some (queue', acc', st')"
    by (simp add: enqueue_stubs_of)
  from Suc.IH [OF this] obtain new where
    new: "acc' = (acc @ [c]) @ new" "length new = n"
      "drop n ((rest @ stubs_of c) @ concat (map stubs_of new)) = queue'"
      "visit_all E cb environment st1 (take n ((rest @ stubs_of c) @ concat (map stubs_of new))) =
         (new, None, st')"
    by blast
  with queue v c have "acc' = acc @ (c # new) \<and> length (c # new) = Suc n \<and>
       drop (Suc n) (queue @ concat (map stubs_of (c # new))) = queue' \<and>
       visit_all E cb environment st (take (Suc n) (queue @ concat (map stubs_of (c # new)))) =
         (c # new, None, st')"
    by simp
  then show ?case by blast
qed

lemma iterate_visits_aux:
  assumes "iterate E cb environment queue acc st = Some r"
  shows "(fst (snd r) = None \<longrightarrow>
            (\<exists>new. fst r = acc @ new \<and>
               visit_all E cb environment st (queue @ concat (map stubs_of new)) =
                 (new, None, snd (snd r)))) \<and>
         (fst (snd r) \<noteq> None \<longrightarrow>
            (\<exists>new. length new < length (queue @ concat (map stubs_of new)) \<and>
               visit_all E cb environment st
                 (take (Suc (length new)) (queue @ concat (map stubs_of new))) =
                 (new, fst (snd r), snd (snd r))))"
proof (rule iterate.raw_induct
        [where P = "\<lambda>E cb environment queue acc st r.
         (fst (snd r) = None \<longrightarrow>
            (\<exists>new. fst r = acc @ new \<and>
               visit_all E cb environment st (queue @ concat (map stubs_of new)) =
                 (new, None, snd (snd r)))) \<and>
         (fst (snd r) \<noteq> None \<longrightarrow>
            (\<exists>new. length new < length (queue @ concat (map stubs_of new)) \<and>
               visit_all E cb environment st
                 (take (Suc (length new)) (queue @ concat (map stubs_of new))) =
                 (new, fst (snd r), snd (snd r))))",
         OF _ assms], goal_cases)
  case (1 iterate E cb environment queue acc st r)
  show ?case
  proof (cases queue)
    case Nil
    with 1(2) show ?thesis by auto
  next
    case (Cons stub rest)
    obtain res st1 where v: "visit E cb environment st stub = (res, st1)"
      by (cases "visit E cb environment st stub")
    show ?thesis
    proof (cases res)
      case (Inl e)
      with 1(2) Cons v have r: "r = ([], Some e, st1)"
        by (auto simp: visit_def split: sum.splits prod.splits option.splits)
      have "\<exists>new. length new < length (queue @ concat (map stubs_of new)) \<and>
               visit_all E cb environment st
                 (take (Suc (length new)) (queue @ concat (map stubs_of new))) =
                 (new, Some e, st1)"
        by (rule exI [of _ "[]"]) (use Cons v Inl in simp)
      with r show ?thesis by simp
    next
      case (Inr c)
      with 1(2) Cons v
      have rec: "iterate E cb environment (rest @ stubs_of c) (acc @ [c]) st1 = Some r"
        by (auto simp: visit_def enqueue_stubs_of split: sum.splits prod.splits option.splits)
      note IH = 1(1) [OF rec]
      show ?thesis
      proof (intro conjI impI)
        assume ok: "fst (snd r) = None"
        with IH obtain new where
          new: "fst r = (acc @ [c]) @ new"
            "visit_all E cb environment st1 ((rest @ stubs_of c) @ concat (map stubs_of new)) =
               (new, None, snd (snd r))"
          by blast
        with Cons v Inr have "fst r = acc @ (c # new) \<and>
               visit_all E cb environment st (queue @ concat (map stubs_of (c # new))) =
                 (c # new, None, snd (snd r))"
          by simp
        then show "\<exists>new. fst r = acc @ new \<and>
               visit_all E cb environment st (queue @ concat (map stubs_of new)) =
                 (new, None, snd (snd r))"
          by blast
      next
        assume bad: "fst (snd r) \<noteq> None"
        with IH obtain new where
          new: "length new < length ((rest @ stubs_of c) @ concat (map stubs_of new))"
            "visit_all E cb environment st1
                 (take (Suc (length new)) ((rest @ stubs_of c) @ concat (map stubs_of new))) =
                 (new, fst (snd r), snd (snd r))"
          by blast
        with Cons v Inr have "length (c # new) < length (queue @ concat (map stubs_of (c # new))) \<and>
               visit_all E cb environment st
                 (take (Suc (length (c # new))) (queue @ concat (map stubs_of (c # new)))) =
                 (c # new, fst (snd r), snd (snd r))"
          by simp
        then show "\<exists>new. length new < length (queue @ concat (map stubs_of new)) \<and>
               visit_all E cb environment st
                 (take (Suc (length new)) (queue @ concat (map stubs_of new))) =
                 (new, fst (snd r), snd (snd r))"
          by blast
      qed
    qed
  qed
qed

lemma iterate_visits_success:
  assumes "iterate E cb environment queue acc st = Some (cs, None, st')"
  shows "\<exists>new. cs = acc @ new \<and>
           visit_all E cb environment st (queue @ concat (map stubs_of new)) = (new, None, st')"
  using iterate_visits_aux [OF assms] by simp

lemma iterate_visits_failure:
  assumes "iterate E cb environment queue acc st = Some (cs, Some err, st')"
  shows "\<exists>new. length new < length (queue @ concat (map stubs_of new)) \<and>
           visit_all E cb environment st
             (take (Suc (length new)) (queue @ concat (map stubs_of new))) = (new, Some err, st')"
  using iterate_visits_aux [OF assms] by simp


lemma presents_length:
  "presents E cb environment st queue forest final \<Longrightarrow> length queue = length forest"
proof (induction E cb environment st queue forest final rule: presents.induct)
  case (2 E cb environment st stub queue c ts rest final)
  obtain res st1 where v: "visit E cb environment st stub = (res, st1)"
    by (cases "visit E cb environment st stub")
  with 2(2) obtain c' where c': "res = Inr c'"
    by (cases res) simp_all
  with 2(2) v have p: "c' = c" "length ts = length (stubs_of c)"
      "presents E cb environment st1 (queue @ stubs_of c) (rest @ ts) final"
    by simp_all
  from 2(1) [OF v [symmetric] c' p(3)] p(2) show ?case by simp
qed simp_all

lemma presents_iterate:
  "presents E cb environment st queue forest final \<Longrightarrow>
     iterate E cb environment queue acc st = Some (acc @ queue_order forest, None, final)"
proof (induction E cb environment st queue forest final arbitrary: acc rule: presents.induct)
  case (1 E cb environment st final)
  then show ?case by (simp add: iterate_Nil)
next
  case (2 E cb environment st stub queue c ts rest final)
  obtain res st1 where v: "visit E cb environment st stub = (res, st1)"
    by (cases "visit E cb environment st stub")
  with 2(2) obtain c' where c': "res = Inr c'"
    by (cases res) simp_all
  with 2(2) v have p: "c' = c"
      "presents E cb environment st1 (queue @ stubs_of c) (rest @ ts) final"
    by simp_all
  from 2(1) [OF v [symmetric] c' p(2), of "acc @ [c]"] v c' p(1) show ?case
    by (simp add: iterate_Cons enqueue_stubs_of)
qed simp_all

lemma iterate_presents_aux:
  assumes "iterate E cb environment queue acc st = Some r"
  shows "fst (snd r) = None \<longrightarrow>
           (\<exists>forest. presents E cb environment st queue forest (snd (snd r)) \<and>
                     fst r = acc @ queue_order forest)"
proof (rule iterate.raw_induct
        [where P = "\<lambda>E cb environment queue acc st r. fst (snd r) = None \<longrightarrow>
           (\<exists>forest. presents E cb environment st queue forest (snd (snd r)) \<and>
                     fst r = acc @ queue_order forest)",
         OF _ assms], goal_cases)
  case (1 iterate E cb environment queue acc st r)
  show ?case
  proof (cases queue)
    case Nil
    with 1(2) have "presents E cb environment st queue [] (snd (snd r)) \<and>
                     fst r = acc @ queue_order []"
      by auto
    then show ?thesis by blast
  next
    case (Cons stub queue')
    obtain res st1 where v: "visit E cb environment st stub = (res, st1)"
      by (cases "visit E cb environment st stub")
    show ?thesis
    proof (cases res)
      case (Inl e)
      with 1(2) Cons v have "r = ([], Some e, st1)"
        by (auto simp: visit_def split: sum.splits prod.splits option.splits)
      then show ?thesis by simp
    next
      case (Inr c)
      with 1(2) Cons v
      have rec: "iterate E cb environment (queue' @ stubs_of c) (acc @ [c]) st1 = Some r"
        by (auto simp: visit_def enqueue_stubs_of split: sum.splits prod.splits option.splits)
      show ?thesis
      proof
        assume "fst (snd r) = None"
        with 1(1) [OF rec] obtain forest where
          forest: "presents E cb environment st1 (queue' @ stubs_of c) forest (snd (snd r))"
            "fst r = (acc @ [c]) @ queue_order forest"
          by blast
        define rest where "rest = take (length queue') forest"
        define ts where "ts = drop (length queue') forest"
        from presents_length [OF forest(1)]
        have len: "length forest = length queue' + length (stubs_of c)" by simp
        then have split: "forest = rest @ ts" "length ts = length (stubs_of c)"
          by (simp_all add: rest_def ts_def)
        with forest(1) v Inr Cons
        have "presents E cb environment st queue (Tree c ts # rest) (snd (snd r))"
          by simp
        moreover from forest(2) split have "fst r = acc @ queue_order (Tree c ts # rest)"
          by simp
        ultimately show "\<exists>forest. presents E cb environment st queue forest (snd (snd r)) \<and>
                     fst r = acc @ queue_order forest"
          by blast
      qed
    qed
  qed
qed

lemma iterate_presents:
  assumes "iterate E cb environment queue acc st = Some (cs, None, st')"
  shows "\<exists>forest. presents E cb environment st queue forest st' \<and> cs = acc @ queue_order forest"
  using iterate_presents_aux [OF assms] by simp


lemma presents_well_shaped:
  "presents E cb environment st queue forest final \<Longrightarrow> \<forall>t \<in> set forest. well_shaped t"
proof (induction E cb environment st queue forest final rule: presents.induct)
  case (2 E cb environment st stub queue c ts rest final)
  obtain res st1 where v: "visit E cb environment st stub = (res, st1)"
    by (cases "visit E cb environment st stub")
  with 2(2) obtain c' where c': "res = Inr c'"
    by (cases res) simp_all
  with 2(2) v have p: "length ts = length (stubs_of c)"
      "presents E cb environment st1 (queue @ stubs_of c) (rest @ ts) final"
    by simp_all
  from 2(1) [OF v [symmetric] c' p(2)] p(1) show ?case
    by (simp add: stubs_of_def)
qed simp_all

lemma realises_run:
  assumes "realises E cb environment (root_stub startingPath) t"
  shows "\<exists>st'. IterateComponentTree E startingPath environment cb st = Some (levels [t], None, st')"
proof -
  from assms have "list_all2 (realises E cb environment) [root_stub startingPath] [t]"
    by simp
  from iterate_queue_order [OF this, of "[]" st] show ?thesis
    by (simp add: IterateComponentTree_def queue_order_levels)
qed

lemma run_fails:
  assumes "after_rounds E cb environment n [root_stub startingPath] [] start =
             Some (stub # queue, acc, st)"
    and "visit E cb environment st stub = (Inl err, st')"
  shows "IterateComponentTree E startingPath environment cb start = Some ([], Some err, st')"
  using after_rounds_iterate [OF assms(1)] assms(2)
  by (simp add: IterateComponentTree_def iterate_Cons)

lemma visit_all_length:
  "visit_all E cb environment st stubs = (cs, None, st') \<Longrightarrow> length cs = length stubs"
proof (induction stubs arbitrary: st cs)
  case (Cons stub stubs)
  then show ?case
    by (auto split: prod.splits sum.splits)
qed simp

subsection \<open>\<^verbatim>\<open>path.Clean\<close> and \<^verbatim>\<open>path.Join\<close>\<close>

text \<open>
  The examples of the test file of Go's \<^verbatim>\<open>path\<close> package for \<^verbatim>\<open>Clean\<close> and
  \<^verbatim>\<open>Join\<close>, evaluated in the model.
\<close>

lemma Clean_examples:
  "map Clean [''abc'', ''abc/def'', ''a/b/c'', ''.'', ''..'', ''../..'', ''../../abc'', ''/abc'', ''/'',
              '''', ''abc/'', ''abc/def/'', ''a/b/c/'', ''./'', ''../'', ''../../'', ''/abc/'',
              ''abc//def//ghi'', ''//abc'', ''///abc'', ''//abc//'', ''abc//'',
              ''abc/./def'', ''/./abc/def'', ''abc/.'',
              ''abc/def/ghi/../jkl'', ''abc/def/../ghi/../jkl'', ''abc/def/..'',
              ''abc/def/../..'', ''/abc/def/../..'', ''abc/def/../../..'', ''/abc/def/../../..'',
              ''abc/def/../../../ghi/jkl/../../../mno'',
              ''abc/./../def'', ''abc//./../def'', ''abc/../../././../def''] =
     [''abc'', ''abc/def'', ''a/b/c'', ''.'', ''..'', ''../..'', ''../../abc'', ''/abc'', ''/'',
      ''.'', ''abc'', ''abc/def'', ''a/b/c'', ''.'', ''..'', ''../..'', ''/abc'',
      ''abc/def/ghi'', ''/abc'', ''/abc'', ''/abc'', ''abc'',
      ''abc/def'', ''/abc/def'', ''abc'',
      ''abc/def/jkl'', ''abc/jkl'', ''abc'',
      ''.'', ''/'', ''..'', ''/'',
      ''../../mno'',
      ''def'', ''def'', ''../../def'']"
  by code_simp

lemma Join_examples:
  "map Join [[''a'', ''b''], [''a'', ''''], ['''', ''b''], [''/'', ''a''], [''/'', ''''], [''a/'', ''b''],
             [''a/'', ''''], ['''', ''''], [], [''a''], [''a'', ''b'', ''c'']] =
     [''a/b'', ''a'', ''b'', ''/a'', ''/'', ''a/b'', ''a'', '''', '''', ''a'', ''a/b/c'']"
  by code_simp


































subsection \<open>The merge engine\<close>

lemma zero_config_sel [simp]:
  "cfg_Config zero_config = fmempty" "cfg_Subcomponents zero_config = fmempty"
  by (simp_all add: zero_config_def)

lemma cfg_Config_spec_Merge:
  "cfg_Config (spec_Merge pol t new) =
     (case pol of
        OverlayWins \<Rightarrow> cfg_Config t ++\<^sub>f cfg_Config new
      | FillGaps \<Rightarrow> cfg_Config new ++\<^sub>f cfg_Config t)"
  by (cases t; cases pol) simp_all

lemma cfg_Subcomponents_spec_Merge:
  "fmlookup (cfg_Subcomponents (spec_Merge pol t new)) k =
     (case fmlookup (cfg_Subcomponents t) k of
        None \<Rightarrow> fmlookup (cfg_Subcomponents new) k
      | Some child \<Rightarrow>
          (case fmlookup (cfg_Subcomponents new) k of
             None \<Rightarrow> Some child
           | Some c \<Rightarrow> Some (spec_Merge pol child c)))"
proof (cases t)
  case (ComponentConfig own subs)
  show ?thesis
  proof (cases "fmlookup subs k")
    case None
    then have "k |\<notin>| fmdom subs" by (simp add: fmdom_notI)
    with None ComponentConfig show ?thesis by (auto simp: fmdom_notD)
  next
    case (Some child)
    then have "k |\<in>| fmdom subs" by (simp add: fmdomI)
    with Some ComponentConfig show ?thesis
      by (cases "fmlookup (cfg_Subcomponents new) k") simp_all
  qed
qed

lemma spec_Merge_zero_right: "spec_Merge pol x zero_config = x"
proof (rule ComponentConfig.expand, rule conjI)
  show "cfg_Config (spec_Merge pol x zero_config) = cfg_Config x"
    by (cases pol) (simp_all add: cfg_Config_spec_Merge)
  show "cfg_Subcomponents (spec_Merge pol x zero_config) = cfg_Subcomponents x"
    by (rule fmap_ext) (auto simp: cfg_Subcomponents_spec_Merge fmdom_notD split: option.splits)
qed

lemma spec_Merge_zero_left: "spec_Merge pol zero_config x = x"
proof (rule ComponentConfig.expand, rule conjI)
  show "cfg_Config (spec_Merge pol zero_config x) = cfg_Config x"
    by (cases pol) (simp_all add: cfg_Config_spec_Merge)
  show "cfg_Subcomponents (spec_Merge pol zero_config x) = cfg_Subcomponents x"
    by (rule fmap_ext) (auto simp: cfg_Subcomponents_spec_Merge fmdom_notD split: option.splits)
qed


subsection \<open>\<^verbatim>\<open>Install\<close>\<close>

lemma Install_loop_steps:
  "Install_loop run installPath ds st =
     run_steps run (concat (map (install_steps installPath) (filter (\<lambda>d. Method d = ''git'') ds))) st"
proof (induction ds arbitrary: st)
  case Nil
  show ?case by simp
next
  case (Cons d ds)
  show ?case
  proof (cases "Method d = ''git''")
    case True
    with Cons show ?thesis
      by (simp add: install_steps_def RelativePathTo_def Let_def
            split: prod.splits option.splits del: Join.simps)
  next
    case False
    with Cons show ?thesis by simp
  qed
qed

lemma run_steps_abort:
  "run_steps run pre st = (None, st1) \<Longrightarrow> run cmd st1 = (Some err, st2) \<Longrightarrow>
     run_steps run (pre @ cmd # post) st = (Some err, st2)"
  by (induction pre arbitrary: st) (auto split: prod.splits option.splits)

lemma run_steps_record: "run_steps record_command cmds log = (None, log @ cmds)"
  by (induction cmds arbitrary: log) (simp_all add: record_command_def)


subsection \<open>Evaluation in the concrete worlds\<close>

lemma demo_paths:
  "Join [''/r'', ''component.json''] = ''/r/component.json''"
  "Join [''/r'', ''config'', ''production.json''] = ''/r/config/production.json''"
  "Join [''/r'', ''config'', ''staging.json''] = ''/r/config/staging.json''"
  "Join [''/r'', ''config'', ''common.json''] = ''/r/config/common.json''"
  "Join [''/r'', ''components/web''] = ''/r/components/web''"
  "Join [''/r'', ''db''] = ''/r/db''"
  "Join [''./'', ''web''] = ''web''"
  "Join [''./'', ''db''] = ''db''"
  "Join [''/r/components/web'', ''component.json''] = ''/r/components/web/component.json''"
  "Join [''/r/components/web'', ''config'', ''production.json''] =
     ''/r/components/web/config/production.json''"
  "Join [''/r/components/web'', ''config'', ''common.json''] =
     ''/r/components/web/config/common.json''"
  "Join [''/r/components/web'', ''components/api''] = ''/r/components/web/components/api''"
  "Join [''web'', ''api''] = ''web/api''"
  "Join [''/r/db'', ''component.json''] = ''/r/db/component.json''"
  "Join [''/r/db'', ''config'', ''production.json''] = ''/r/db/config/production.json''"
  "Join [''/r/db'', ''config'', ''common.json''] = ''/r/db/config/common.json''"
  "Join [''/r/components/web/components/api'', ''component.json''] =
     ''/r/components/web/components/api/component.json''"
  "Join [''/r/components/web/components/api'', ''config'', ''production.json''] =
     ''/r/components/web/components/api/config/production.json''"
  "Join [''/r/components/web/components/api'', ''config'', ''common.json''] =
     ''/r/components/web/components/api/config/common.json''"
  by code_simp+

lemmas world_defs = visit_def LoadComponent_def LoadConfig_def MergeConfigFile_def world_def
  keep_def refuse_def root_stub_def placed_def component_literal_def componentToQueue_def
  RelativePathTo_def stubs_of_def Let_def

lemmas demo_defs = demo_env_def demo_files_def demo_decode_def demo_root_def demo_web_def
  demo_db_def demo_api_def

lemma demo_visit_root:
  "visit demo_env keep ''production'' st (root_stub ''/r'') = (Inr (placed demo_root ''/r'' ''./''), st)"
  by (simp add: world_defs demo_defs demo_paths zero_config_def[symmetric] spec_Merge_zero_right
        del: Join.simps)

lemma demo_stubs_root:
  "stubs_of (placed demo_root ''/r'' ''./'') =
     [Component ''web'' [] [] [] [] [] [] ''/r/components/web'' ''web'' zero_config [],
      Component ''db'' [] [] [] [] [] [] ''/r/db'' ''db'' zero_config []]"
  by (simp add: world_defs demo_defs demo_paths del: Join.simps)

lemma demo_visit_web:
  "visit demo_env keep ''production'' st
     (Component ''web'' [] [] [] [] [] [] ''/r/components/web'' ''web'' zero_config []) =
   (Inr (placed demo_web ''/r/components/web'' ''web''), st)"
  by (simp add: world_defs demo_defs demo_paths spec_Merge_zero_right del: Join.simps)

lemma demo_visit_db:
  "visit demo_env keep ''production'' st
     (Component ''db'' [] [] [] [] [] [] ''/r/db'' ''db'' zero_config []) =
   (Inr (placed demo_db ''/r/db'' ''db''), st)"
  by (simp add: world_defs demo_defs demo_paths spec_Merge_zero_right del: Join.simps)

lemma demo_stubs_web:
  "stubs_of (placed demo_web ''/r/components/web'' ''web'') =
     [Component ''api'' [] [] [] [] [] [] ''/r/components/web/components/api'' ''web/api''
        zero_config []]"
  by (simp add: world_defs demo_defs demo_paths del: Join.simps)

lemma demo_visit_api:
  "visit demo_env keep ''production'' st
     (Component ''api'' [] [] [] [] [] [] ''/r/components/web/components/api'' ''web/api''
        zero_config []) =
   (Inr (placed demo_api ''/r/components/web/components/api'' ''web/api''), st)"
  by (simp add: world_defs demo_defs demo_paths spec_Merge_zero_right del: Join.simps)

lemma demo_stubs_leaf:
  "stubs_of (placed demo_db ''/r/db'' ''db'') = []"
  "stubs_of (placed demo_api ''/r/components/web/components/api'' ''web/api'') = []"
  by (simp_all add: world_defs demo_defs)

lemma demo_realises: "realises demo_env keep ''production'' (root_stub ''/r'') demo_tree"
  by (simp add: demo_tree_def demo_visit_root demo_visit_web demo_visit_db demo_visit_api
        demo_stubs_root demo_stubs_web demo_stubs_leaf)

lemma demo_levels: "levels [demo_tree] = demo_completed"
  by (simp add: levels.simps demo_tree_def demo_completed_def)

lemma demo_run:
  "IterateComponentTree demo_env ''/r'' ''production'' keep () = Some (demo_completed, None, ())"
  by (simp add: IterateComponentTree_def iterate_Cons iterate_Nil enqueue_stubs_of
        demo_visit_root demo_visit_web demo_visit_db demo_visit_api
        demo_stubs_root demo_stubs_web demo_stubs_leaf demo_completed_def)

lemmas root_only_defs = root_only_env_def root_only_files_def demo_decode_def demo_root_def
lemmas damaged_defs = damaged_env_def damaged_files_def demo_decode_def demo_root_def
  overlay_decode_def

lemma root_only_visit_root:
  "visit root_only_env keep ''production'' st (root_stub ''/r'') =
     (Inr (placed demo_root ''/r'' ''./''), st)"
  by (simp add: world_defs root_only_defs demo_paths zero_config_def[symmetric]
        spec_Merge_zero_right del: Join.simps)

lemma root_only_web_missing:
  "file_at root_only_env ()
     (Join [PhysicalPath (Component ''web'' [] [] [] [] [] [] ''/r/components/web'' ''web''
                            zero_config [] :: nat Component), ''component.json'']) = NotExist"
  by (simp add: world_defs root_only_defs demo_paths del: Join.simps)

lemma demo_load_root:
  "LoadComponent demo_env () (root_stub ''/r'') = Inr (placed demo_root ''/r'' ''./'')"
  "LoadConfig demo_env () (placed demo_root ''/r'' ''./'') ''production'' =
     Inr (placed demo_root ''/r'' ''./'')"
  by (simp_all add: world_defs demo_defs demo_paths zero_config_def[symmetric]
        spec_Merge_zero_right del: Join.simps)

lemma damaged_load_root:
  "LoadComponent damaged_env () (root_stub ''/r'') = Inr (placed demo_root ''/r'' ''./'')"
  "LoadConfig damaged_env () (placed demo_root ''/r'' ''./'') ''production'' =
     Inl (ParseError ''/r/config/common.json'')"
  by (simp_all add: world_defs damaged_defs demo_paths zero_config_def[symmetric]
        spec_Merge_zero_right del: Join.simps)


lemmas twin_defs = twin_env_def twin_files_def twin_decode_def twin_root_def twin_web_def


lemma twin_run:
  "IterateComponentTree twin_env ''/r'' ''production'' keep () =
     Some ([placed twin_root ''/r'' ''./'',
            placed twin_web ''/r/components/web'' ''web'',
            placed twin_web ''/r/components/web'' ''web''], None, ())"
  by (simp add: IterateComponentTree_def iterate_Cons iterate_Nil world_defs twin_defs demo_paths
        zero_config_def[symmetric] spec_Merge_zero_right del: Join.simps)

lemma twin_stubs:
  "concat (map stubs_of [placed twin_root ''/r'' ''./'',
            placed twin_web ''/r/components/web'' ''web'',
            placed twin_web ''/r/components/web'' ''web'']) =
     [Component ''web'' [] [] [] [] [] [] ''/r/components/web'' ''web'' zero_config [],
      Component ''web'' [] [] [] [] [] [] ''/r/components/web'' ''web'' zero_config []]"
  by (simp add: world_defs twin_defs demo_paths del: Join.simps)

lemma stray_paths:
  "Join [''/r/cache'', ''component.json''] = ''/r/cache/component.json''"
  "Join [''/r/api'', ''component.json''] = ''/r/api/component.json''"
  by code_simp+



subsection \<open>Evaluation of the installing and the counting traversals\<close>

lemmas install_defs = install_env_def install_files_def installing_def clone_run_def Install_def
  demo_decode_def demo_root_def demo_web_def demo_db_def demo_api_def

lemma install_visit_root:
  "visit install_env installing ''production'' [] (root_stub ''/r'') =
     (Inr (placed demo_root ''/r'' ''./''), [''/r/components/web''])"
  by (simp add: world_defs install_defs demo_paths zero_config_def[symmetric] spec_Merge_zero_right
        del: Join.simps)

lemma install_visit_web:
  "visit install_env installing ''production'' [''/r/components/web'']
     (Component ''web'' [] [] [] [] [] [] ''/r/components/web'' ''web'' zero_config []) =
   (Inr (placed demo_web ''/r/components/web'' ''web''),
    [''/r/components/web/components/api'', ''/r/components/web''])"
  by (simp add: world_defs install_defs demo_paths spec_Merge_zero_right del: Join.simps)

lemma install_visit_db:
  "visit install_env installing ''production''
     [''/r/components/web/components/api'', ''/r/components/web'']
     (Component ''db'' [] [] [] [] [] [] ''/r/db'' ''db'' zero_config []) =
   (Inr (placed demo_db ''/r/db'' ''db''),
    [''/r/components/web/components/api'', ''/r/components/web''])"
  by (simp add: world_defs install_defs demo_paths spec_Merge_zero_right del: Join.simps)

lemma install_visit_api:
  "visit install_env installing ''production''
     [''/r/components/web/components/api'', ''/r/components/web'']
     (Component ''api'' [] [] [] [] [] [] ''/r/components/web/components/api'' ''web/api''
        zero_config []) =
   (Inr (placed demo_api ''/r/components/web/components/api'' ''web/api''),
    [''/r/components/web/components/api'', ''/r/components/web''])"
  by (simp add: world_defs install_defs demo_paths spec_Merge_zero_right del: Join.simps)

lemma install_presents:
  "presents install_env installing ''production'' [] [root_stub ''/r''] [demo_tree]
     [''/r/components/web/components/api'', ''/r/components/web'']"
  by (simp add: demo_tree_def install_visit_root install_visit_web install_visit_db
        install_visit_api demo_stubs_root demo_stubs_web demo_stubs_leaf)

lemma install_web_missing_before:
  "LoadComponent install_env []
     (Component ''web'' [] [] [] [] [] [] ''/r/components/web'' ''web'' zero_config []) =
   Inl (NotFound ''/r/components/web/component.json'')"
  by (simp add: world_defs install_defs demo_paths del: Join.simps)

lemma root_only_after_one_round:
  "after_rounds root_only_env keep ''production'' (Suc 0) [root_stub ''/r''] [] () =
     Some ([Component ''web'' [] [] [] [] [] [] ''/r/components/web'' ''web'' zero_config [],
            Component ''db'' [] [] [] [] [] [] ''/r/db'' ''db'' zero_config []],
           [placed demo_root ''/r'' ''./''], ())"
  by (simp add: root_only_visit_root enqueue_stubs_of demo_stubs_root)

lemma twin_counting_run:
  "IterateComponentTree twin_env ''/r'' ''production'' counting 0 =
     Some ([placed twin_root ''/r'' ''./'',
            placed twin_web ''/r/components/web'' ''web'',
            placed twin_web ''/r/components/web'' ''web''], None, 3)"
  by (simp add: IterateComponentTree_def iterate_Cons iterate_Nil world_defs twin_defs demo_paths
        counting_def zero_config_def[symmetric] spec_Merge_zero_right del: Join.simps)

lemma root_only_counting_run:
  "IterateComponentTree root_only_env ''/r'' ''production'' counting 0 =
     Some ([], Some (NotFound ''/r/components/web/component.json''), 1)"
  by (simp add: IterateComponentTree_def iterate_Cons iterate_Nil world_defs root_only_defs
        demo_paths counting_def zero_config_def[symmetric] spec_Merge_zero_right del: Join.simps)

lemma root_only_counting_round:
  "after_rounds root_only_env counting ''production'' (Suc 0) [root_stub ''/r''] [] 0 =
     Some ([Component ''web'' [] [] [] [] [] [] ''/r/components/web'' ''web'' zero_config [],
            Component ''db'' [] [] [] [] [] [] ''/r/db'' ''db'' zero_config []],
           [placed demo_root ''/r'' ''./''], 1)"
  by (simp add: world_defs root_only_defs demo_paths counting_def zero_config_def[symmetric]
        spec_Merge_zero_right del: Join.simps)

lemma overlay_merged:
  "spec_Merge OverlayWins (spec_Merge OverlayWins zero_config production_config) common_config =
     ComponentConfig (fmupd ''port'' 8080 (fmupd ''debug'' 0 fmempty)) fmempty"
  "spec_Merge FillGaps (spec_Merge FillGaps zero_config production_config) common_config =
     ComponentConfig (fmupd ''port'' 80 (fmupd ''debug'' 0 fmempty)) fmempty"
  by (simp_all add: spec_Merge_zero_left production_config_def common_config_def fmap_ext)

section \<open>Properties\<close>

subsection \<open>Breadth-first traversal\<close>

text \<open>
  C1.  A run in which the root and the declared subcomponents load without error and
  the callback returns no error visits a finite component tree in breadth-first order.
  The tree is the one that the files and the callback present as the run goes: the
  callback may change the world (an installing callback creates the descriptors that
  later loads read), and every stub is visited in the world that the visits before it
  left.  If the tree \<open>t\<close> is presented at the root stub from the world \<open>st\<close> to the
  world \<open>st'\<close>, then \<^verbatim>\<open>IterateComponentTree\<close> returns, with no error and in the world
  \<open>st'\<close>, and \<^verbatim>\<open>completedComponents\<close> is the breadth-first order of \<open>t\<close>: the root,
  then its children from left to right, then their children, and so on.  Conversely,
  every run that returns without error has visited such a tree \<open>u\<close>: \<open>u\<close> is presented
  at the root stub from the first world of the run to its last, every node of \<open>u\<close> has
  one child for each declaration with a source of its component, and
  \<^verbatim>\<open>completedComponents\<close> is the breadth-first order of \<open>u\<close>.  A tree that the files
  and the callback present whatever the world is (a callback that leaves the
  descriptors alone) is visited in the same way from every world.  The sequence has as
  many entries as the tree has nodes (the synthetic root and one for each other node),
  and it holds each node of the tree exactly once.
\<close>

theorem breadth_first_traversal:
  "(presents E cb environment st [root_stub startingPath] [t] st' \<longrightarrow>
      IterateComponentTree E startingPath environment cb st = Some (levels [t], None, st')) \<and>
   (IterateComponentTree E startingPath environment cb st = Some (cs, None, st') \<longrightarrow>
      (\<exists>u. presents E cb environment st [root_stub startingPath] [u] st' \<and> well_shaped u \<and>
           cs = levels [u] \<and> length cs = tree_size u \<and> mset cs = mset (nodes u))) \<and>
   (realises E cb environment (root_stub startingPath) t \<longrightarrow>
      (\<exists>final. IterateComponentTree E startingPath environment cb st =
                 Some (levels [t], None, final))) \<and>
   length (levels [t]) = tree_size t \<and>
   mset (levels [t]) = mset (nodes t)"
proof (intro conjI impI)
  show "IterateComponentTree E startingPath environment cb st = Some (levels [t], None, st')"
    if "presents E cb environment st [root_stub startingPath] [t] st'"
    using presents_iterate [OF that, of "[]"]
    by (simp add: IterateComponentTree_def queue_order_levels)
  show "\<exists>u. presents E cb environment st [root_stub startingPath] [u] st' \<and> well_shaped u \<and>
           cs = levels [u] \<and> length cs = tree_size u \<and> mset cs = mset (nodes u)"
    if "IterateComponentTree E startingPath environment cb st = Some (cs, None, st')"
  proof -
    from iterate_presents [OF that [unfolded IterateComponentTree_def]]
    obtain forest where
      forest: "presents E cb environment st [root_stub startingPath] forest st'"
        "cs = queue_order forest"
      by auto
    from presents_length [OF forest(1)] obtain u where u: "forest = [u]"
      by (cases forest) simp_all
    from presents_well_shaped [OF forest(1)] u have "well_shaped u" by simp
    with forest u show ?thesis
      by (auto simp: queue_order_levels length_levels mset_levels)
  qed
  show "\<exists>final. IterateComponentTree E startingPath environment cb st =
                 Some (levels [t], None, final)"
    if "realises E cb environment (root_stub startingPath) t"
    using that by (rule realises_run)
qed (simp_all add: length_levels mset_levels)

theorem breadth_first_traversal_witness:
  "LoadComponent install_env []
     (Component ''web'' [] [] [] [] [] [] ''/r/components/web'' ''web'' zero_config []) =
     Inl (NotFound ''/r/components/web/component.json'') \<and>
   presents install_env installing ''production'' [] [root_stub ''/r''] [demo_tree]
     [''/r/components/web/components/api'', ''/r/components/web''] \<and>
   IterateComponentTree install_env ''/r'' ''production'' installing [] =
     Some ([placed demo_root ''/r'' ''./'', placed demo_web ''/r/components/web'' ''web'',
            placed demo_db ''/r/db'' ''db'',
            placed demo_api ''/r/components/web/components/api'' ''web/api''], None,
           [''/r/components/web/components/api'', ''/r/components/web'']) \<and>
   (\<exists>u. presents install_env installing ''production'' [] [root_stub ''/r''] [u]
          [''/r/components/web/components/api'', ''/r/components/web''] \<and>
        well_shaped u \<and>
        levels [u] =
          [placed demo_root ''/r'' ''./'', placed demo_web ''/r/components/web'' ''web'',
           placed demo_db ''/r/db'' ''db'',
           placed demo_api ''/r/components/web/components/api'' ''web/api''] \<and>
        tree_size u = 4) \<and>
   realises demo_env keep ''production'' (root_stub ''/r'') demo_tree \<and>
   IterateComponentTree demo_env ''/r'' ''production'' keep () =
     Some ([placed demo_root ''/r'' ''./'', placed demo_web ''/r/components/web'' ''web'',
            placed demo_db ''/r/db'' ''db'',
            placed demo_api ''/r/components/web/components/api'' ''web/api''], None, ()) \<and>
   tree_size demo_tree = 4"
proof -
  let ?cs = "[placed demo_root ''/r'' ''./'', placed demo_web ''/r/components/web'' ''web'',
              placed demo_db ''/r/db'' ''db'',
              placed demo_api ''/r/components/web/components/api'' ''web/api'']"
  let ?final = "[''/r/components/web/components/api'', ''/r/components/web'']"
  from breadth_first_traversal
         [where E = install_env and cb = installing and environment = "''production''"
            and st = "[]" and startingPath = "''/r''" and t = demo_tree
            and st' = ?final,
          THEN conjunct1] install_presents
  have 1: "IterateComponentTree install_env ''/r'' ''production'' installing [] =
     Some (?cs, None, ?final)"
    by (simp add: demo_levels demo_completed_def)
  from breadth_first_traversal
         [where E = install_env and cb = installing and environment = "''production''"
            and st = "[]" and startingPath = "''/r''" and cs = ?cs
            and st' = ?final,
          THEN conjunct2, THEN conjunct1] 1
  have 2: "\<exists>u. presents install_env installing ''production'' [] [root_stub ''/r''] [u] ?final \<and>
        well_shaped u \<and> levels [u] = ?cs \<and> tree_size u = 4"
    by auto
  from breadth_first_traversal
         [where E = demo_env and cb = keep and environment = "''production''"
            and st = "()" and startingPath = "''/r''" and t = demo_tree,
          THEN conjunct2, THEN conjunct2, THEN conjunct1] demo_realises
  have 3: "IterateComponentTree demo_env ''/r'' ''production'' keep () = Some (?cs, None, ())"
    by (simp add: demo_levels demo_completed_def)
  have 4: "tree_size demo_tree = 4"
    by (simp add: demo_tree_def)
  from 1 2 3 4 install_presents install_web_missing_before demo_realises show ?thesis
    by blast
qed

subsection \<open>Errors\<close>

text \<open>
  C2.  The run fails at the first step that fails, in whatever round that is.  Let the
  loop, started at the root stub, have reached after \<open>n\<close> rounds the queue
  \<open>stub # queue\<close>, the completed components \<open>acc\<close> and the world \<open>st\<close>.  When the
  descriptor of \<open>stub\<close> cannot be loaded, when its overlays cannot be loaded, or when
  the callback returns an error, \<^verbatim>\<open>IterateComponentTree\<close> returns that error and no
  completed component, whatever it had completed before.  A descriptor that is missing
  at the computed physical path gives the \<open>NotFound\<close> error for that path.
  Conversely, every run that returns an error returns the empty sequence, and its
  error is the error of one of these three steps at a stub that the loop reached.  The
  loop behaves in the same way from every queue and every sequence of completed
  components.
\<close>

theorem fail_fast:
  "(after_rounds E cb environment n [root_stub startingPath] [] start = Some (stub # queue, acc, st) \<and>
    LoadComponent E st stub = Inl err \<longrightarrow>
      IterateComponentTree E startingPath environment cb start = Some ([], Some err, st)) \<and>
   (after_rounds E cb environment n [root_stub startingPath] [] start = Some (stub # queue, acc, st) \<and>
    LoadComponent E st stub = Inr loaded \<and> LoadConfig E st loaded environment = Inl err \<longrightarrow>
      IterateComponentTree E startingPath environment cb start = Some ([], Some err, st)) \<and>
   (after_rounds E cb environment n [root_stub startingPath] [] start = Some (stub # queue, acc, st) \<and>
    LoadComponent E st stub = Inr loaded \<and> LoadConfig E st loaded environment = Inr configured \<and>
    cb (PhysicalPath configured) configured st = (Some err, c, after) \<longrightarrow>
      IterateComponentTree E startingPath environment cb start = Some ([], Some err, after)) \<and>
   (after_rounds E cb environment n [root_stub startingPath] [] start = Some (stub # queue, acc, st) \<and>
    file_at E st (Join [PhysicalPath stub, ''component.json'']) = NotExist \<longrightarrow>
      IterateComponentTree E startingPath environment cb start =
        Some ([], Some (NotFound (Join [PhysicalPath stub, ''component.json''])), st)) \<and>
   (IterateComponentTree E startingPath environment cb start = Some (cs, Some err, st') \<longrightarrow>
      cs = [] \<and>
      (\<exists>k failing waiting completed s.
         after_rounds E cb environment k [root_stub startingPath] [] start =
           Some (failing # waiting, completed, s) \<and>
         (LoadComponent E s failing = Inl err \<and> st' = s \<or>
          (\<exists>loaded. LoadComponent E s failing = Inr loaded \<and>
             LoadConfig E s loaded environment = Inl err \<and> st' = s) \<or>
          (\<exists>loaded configured c. LoadComponent E s failing = Inr loaded \<and>
             LoadConfig E s loaded environment = Inr configured \<and>
             cb (PhysicalPath configured) configured s = (Some err, c, st'))))) \<and>
   (LoadComponent E st stub = Inl err \<longrightarrow>
      iterate E cb environment (stub # queue) acc st = Some ([], Some err, st)) \<and>
   (LoadComponent E st stub = Inr loaded \<and> LoadConfig E st loaded environment = Inl err \<longrightarrow>
      iterate E cb environment (stub # queue) acc st = Some ([], Some err, st)) \<and>
   (LoadComponent E st stub = Inr loaded \<and> LoadConfig E st loaded environment = Inr configured \<and>
    cb (PhysicalPath configured) configured st = (Some err, c, after) \<longrightarrow>
      iterate E cb environment (stub # queue) acc st = Some ([], Some err, after)) \<and>
   (iterate E cb environment queue acc st = Some (cs, Some err, st') \<longrightarrow> cs = [])"
proof (intro conjI impI)
  show "cs = []" if "iterate E cb environment queue acc st = Some (cs, Some err, st')"
    using that by (rule iterate_error_empty)
  show "cs = []" if "IterateComponentTree E startingPath environment cb start = Some (cs, Some err, st')"
    using that unfolding IterateComponentTree_def by (rule iterate_error_empty)
  show "\<exists>k failing waiting completed s.
         after_rounds E cb environment k [root_stub startingPath] [] start =
           Some (failing # waiting, completed, s) \<and>
         (LoadComponent E s failing = Inl err \<and> st' = s \<or>
          (\<exists>loaded. LoadComponent E s failing = Inr loaded \<and>
             LoadConfig E s loaded environment = Inl err \<and> st' = s) \<or>
          (\<exists>loaded configured c. LoadComponent E s failing = Inr loaded \<and>
             LoadConfig E s loaded environment = Inr configured \<and>
             cb (PhysicalPath configured) configured s = (Some err, c, st')))"
    if "IterateComponentTree E startingPath environment cb start = Some (cs, Some err, st')"
    using iterate_error_source [OF that [unfolded IterateComponentTree_def]]
    unfolding visit_Inl_iff by blast
  show "IterateComponentTree E startingPath environment cb start = Some ([], Some err, st)"
    if "after_rounds E cb environment n [root_stub startingPath] [] start =
          Some (stub # queue, acc, st) \<and> LoadComponent E st stub = Inl err"
    using that by (intro run_fails [of E cb environment n startingPath start stub queue acc st])
                  (simp_all add: visit_Inl_iff)
  show "IterateComponentTree E startingPath environment cb start = Some ([], Some err, st)"
    if "after_rounds E cb environment n [root_stub startingPath] [] start =
          Some (stub # queue, acc, st) \<and>
        LoadComponent E st stub = Inr loaded \<and> LoadConfig E st loaded environment = Inl err"
    using that by (intro run_fails [of E cb environment n startingPath start stub queue acc st])
                  (simp_all add: visit_Inl_iff)
  show "IterateComponentTree E startingPath environment cb start = Some ([], Some err, after)"
    if "after_rounds E cb environment n [root_stub startingPath] [] start =
          Some (stub # queue, acc, st) \<and>
        LoadComponent E st stub = Inr loaded \<and> LoadConfig E st loaded environment = Inr configured \<and>
        cb (PhysicalPath configured) configured st = (Some err, c, after)"
    using that by (intro run_fails [of E cb environment n startingPath start stub queue acc st])
                  (auto simp: visit_Inl_iff)
  show "IterateComponentTree E startingPath environment cb start =
        Some ([], Some (NotFound (Join [PhysicalPath stub, ''component.json''])), st)"
    if "after_rounds E cb environment n [root_stub startingPath] [] start =
          Some (stub # queue, acc, st) \<and>
        file_at E st (Join [PhysicalPath stub, ''component.json'']) = NotExist"
    using that by (intro run_fails [of E cb environment n startingPath start stub queue acc st])
                  (simp_all add: visit_Inl_iff LoadComponent_def Let_def del: Join.simps)
qed (simp_all add: iterate_Cons visit_def)

theorem fail_fast_witness:
  "IterateComponentTree root_only_env ''/r'' ''production'' keep () =
     Some ([], Some (NotFound ''/r/components/web/component.json''), ()) \<and>
   IterateComponentTree damaged_env ''/r'' ''production'' keep () =
     Some ([], Some (ParseError ''/r/config/common.json''), ()) \<and>
   IterateComponentTree demo_env ''/r'' ''production'' refuse () =
     Some ([], Some (Failure ''refused''), ())"
proof -
  let ?web = "Component ''web'' [] [] [] [] [] [] ''/r/components/web'' ''web'' zero_config []
                :: nat Component"
  let ?db = "Component ''db'' [] [] [] [] [] [] ''/r/db'' ''db'' zero_config [] :: nat Component"
  let ?root = "placed demo_root ''/r'' ''./''"
  from fail_fast
         [where E = root_only_env and cb = keep and environment = "''production''"
            and n = "Suc 0" and startingPath = "''/r''" and start = "()" and stub = ?web
            and queue = "[?db]" and acc = "[?root]" and st = "()",
          THEN conjunct2, THEN conjunct2, THEN conjunct2, THEN conjunct1]
       root_only_after_one_round root_only_web_missing
  have 1: "IterateComponentTree root_only_env ''/r'' ''production'' keep () =
     Some ([], Some (NotFound ''/r/components/web/component.json''), ())"
    by (simp add: demo_paths del: Join.simps)
  from fail_fast
         [where E = damaged_env and cb = keep and environment = "''production''"
            and n = 0 and startingPath = "''/r''" and start = "()" and stub = "root_stub ''/r''"
            and queue = "[]" and acc = "[]" and st = "()" and loaded = ?root
            and err = "ParseError ''/r/config/common.json''",
          THEN conjunct2, THEN conjunct1]
       damaged_load_root
  have 2: "IterateComponentTree damaged_env ''/r'' ''production'' keep () =
     Some ([], Some (ParseError ''/r/config/common.json''), ())"
    by simp
  from fail_fast
         [where E = demo_env and cb = refuse and environment = "''production''"
            and n = 0 and startingPath = "''/r''" and start = "()" and stub = "root_stub ''/r''"
            and queue = "[]" and acc = "[]" and st = "()" and loaded = ?root
            and configured = ?root and c = ?root and after = "()"
            and err = "Failure ''refused''",
          THEN conjunct2, THEN conjunct2, THEN conjunct1]
       demo_load_root
  have 3: "IterateComponentTree demo_env ''/r'' ''production'' refuse () =
     Some ([], Some (Failure ''refused''), ())"
    by (simp add: refuse_def)
  from 1 2 3 show ?thesis by simp
qed

subsection \<open>Queue entries and completed components\<close>

text \<open>
  C3, as stated, fails: nothing in the loop remembers what it has visited.  A root that
  declares the git subcomponent \<^verbatim>\<open>web\<close> twice gets two queue entries for it, and the
  same component appears twice in \<^verbatim>\<open>completedComponents\<close>.
\<close>

theorem duplicate_declarations_visited_twice:
  "IterateComponentTree twin_env ''/r'' ''production'' keep () =
     Some ([placed twin_root ''/r'' ''./'',
            placed twin_web ''/r/components/web'' ''web'',
            placed twin_web ''/r/components/web'' ''web''], None, ())"
  by (rule twin_run)

text \<open>
  C3, amended.  In every traversal, every queue entry is dequeued, loaded and
  dispatched to the callback exactly once, in the order of the queue.  The queue
  entries are the root stub, followed by the stubs of the first completed component,
  then those of the second, and so on; \<open>visit_all\<close> visits the entries of a list one
  after the other, each exactly once and each in the world that the visit before it
  left.  After any number \<open>n\<close> of rounds, the completed components are the results of
  these visits for the first \<open>n\<close> entries, the world is the one the \<open>n\<close>-th visit left,
  and the queue holds exactly the entries that remain.  A run that returns without
  error has visited every entry in this way, the world it returns is the one the last
  visit left, and there are as many completed components as entries.  A run that returns
  an error has visited in this way the entries before the failing one and the failing
  one, where the visits stop.  An entry is made for every declaration with a source,
  also for one that repeats a name: nothing is de-duplicated, and the same component
  can appear twice in \<^verbatim>\<open>completedComponents\<close>.
\<close>

theorem every_entry_visited_once:
  "(after_rounds E cb environment n [root_stub startingPath] [] start = Some (queue, acc, st) \<longrightarrow>
      length acc = n \<and>
      drop n (root_stub startingPath # concat (map stubs_of acc)) = queue \<and>
      visit_all E cb environment start
        (take n (root_stub startingPath # concat (map stubs_of acc))) = (acc, None, st)) \<and>
   (IterateComponentTree E startingPath environment cb start = Some (cs, None, st') \<longrightarrow>
      visit_all E cb environment start (root_stub startingPath # concat (map stubs_of cs)) =
        (cs, None, st') \<and>
      length cs = Suc (length (concat (map stubs_of cs)))) \<and>
   (IterateComponentTree E startingPath environment cb start = Some (cs, Some err, st') \<longrightarrow>
      (\<exists>visited.
         length visited < length (root_stub startingPath # concat (map stubs_of visited)) \<and>
         visit_all E cb environment start
           (take (Suc (length visited)) (root_stub startingPath # concat (map stubs_of visited))) =
           (visited, Some err, st')))"
proof (intro conjI impI)
  assume "after_rounds E cb environment n [root_stub startingPath] [] start = Some (queue, acc, st)"
  from after_rounds_visits [OF this]
  show "length acc = n"
    and "drop n (root_stub startingPath # concat (map stubs_of acc)) = queue"
    and "visit_all E cb environment start
        (take n (root_stub startingPath # concat (map stubs_of acc))) = (acc, None, st)"
    by auto
next
  assume "IterateComponentTree E startingPath environment cb start = Some (cs, None, st')"
  from iterate_visits_success [OF this [unfolded IterateComponentTree_def]]
  have *: "visit_all E cb environment start (root_stub startingPath # concat (map stubs_of cs)) =
        (cs, None, st')"
    by auto
  then show "visit_all E cb environment start
        (root_stub startingPath # concat (map stubs_of cs)) = (cs, None, st')" .
  from visit_all_length [OF *]
  show "length cs = Suc (length (concat (map stubs_of cs)))"
    by simp
next
  assume "IterateComponentTree E startingPath environment cb start = Some (cs, Some err, st')"
  from iterate_visits_failure [OF this [unfolded IterateComponentTree_def]]
  show "\<exists>visited.
         length visited < length (root_stub startingPath # concat (map stubs_of visited)) \<and>
         visit_all E cb environment start
           (take (Suc (length visited)) (root_stub startingPath # concat (map stubs_of visited))) =
           (visited, Some err, st')"
    by simp
qed

theorem every_entry_visited_once_witness:
  "IterateComponentTree twin_env ''/r'' ''production'' counting 0 =
     Some ([placed twin_root ''/r'' ''./'',
            placed twin_web ''/r/components/web'' ''web'',
            placed twin_web ''/r/components/web'' ''web''], None, 3) \<and>
   visit_all twin_env counting ''production'' 0
     [root_stub ''/r'',
      Component ''web'' [] [] [] [] [] [] ''/r/components/web'' ''web'' zero_config [],
      Component ''web'' [] [] [] [] [] [] ''/r/components/web'' ''web'' zero_config []] =
     ([placed twin_root ''/r'' ''./'',
       placed twin_web ''/r/components/web'' ''web'',
       placed twin_web ''/r/components/web'' ''web''], None, 3) \<and>
   after_rounds root_only_env counting ''production'' (Suc 0) [root_stub ''/r''] [] 0 =
     Some ([Component ''web'' [] [] [] [] [] [] ''/r/components/web'' ''web'' zero_config [],
            Component ''db'' [] [] [] [] [] [] ''/r/db'' ''db'' zero_config []],
           [placed demo_root ''/r'' ''./''], 1) \<and>
   visit_all root_only_env counting ''production'' 0 [root_stub ''/r''] =
     ([placed demo_root ''/r'' ''./''], None, 1) \<and>
   IterateComponentTree root_only_env ''/r'' ''production'' counting 0 =
     Some ([], Some (NotFound ''/r/components/web/component.json''), 1) \<and>
   (\<exists>visited.
      length visited < length (root_stub ''/r'' # concat (map stubs_of visited)) \<and>
      visit_all root_only_env counting ''production'' 0
        (take (Suc (length visited)) (root_stub ''/r'' # concat (map stubs_of visited))) =
        (visited, Some (NotFound ''/r/components/web/component.json''), 1))"
proof -
  let ?web = "Component ''web'' [] [] [] [] [] [] ''/r/components/web'' ''web'' zero_config []
                :: nat Component"
  let ?db = "Component ''db'' [] [] [] [] [] [] ''/r/db'' ''db'' zero_config [] :: nat Component"
  from every_entry_visited_once
         [where E = twin_env and cb = counting and environment = "''production''"
            and startingPath = "''/r''" and start = 0 and st' = 3
            and cs = "[placed twin_root ''/r'' ''./'',
                       placed twin_web ''/r/components/web'' ''web'',
                       placed twin_web ''/r/components/web'' ''web'']",
          THEN conjunct2, THEN conjunct1] twin_counting_run
  have 1: "visit_all twin_env counting ''production'' 0
     [root_stub ''/r'',
      Component ''web'' [] [] [] [] [] [] ''/r/components/web'' ''web'' zero_config [],
      Component ''web'' [] [] [] [] [] [] ''/r/components/web'' ''web'' zero_config []] =
     ([placed twin_root ''/r'' ''./'',
       placed twin_web ''/r/components/web'' ''web'',
       placed twin_web ''/r/components/web'' ''web''], None, 3)"
    by (simp only: twin_stubs)
  from every_entry_visited_once
         [where E = root_only_env and cb = counting and environment = "''production''"
            and startingPath = "''/r''" and start = 0 and st' = 1 and cs = "[]"
            and err = "NotFound ''/r/components/web/component.json''",
          THEN conjunct2, THEN conjunct2] root_only_counting_run
  have 2: "\<exists>visited.
      length visited < length (root_stub ''/r'' # concat (map stubs_of visited)) \<and>
      visit_all root_only_env counting ''production'' 0
        (take (Suc (length visited)) (root_stub ''/r'' # concat (map stubs_of visited))) =
        (visited, Some (NotFound ''/r/components/web/component.json''), 1)"
    by blast
  from every_entry_visited_once
         [where E = root_only_env and cb = counting and environment = "''production''"
            and startingPath = "''/r''" and start = 0 and n = "Suc 0"
            and queue = "[?web, ?db]" and acc = "[placed demo_root ''/r'' ''./'']" and st = 1,
          THEN conjunct1] root_only_counting_round
  have 3: "visit_all root_only_env counting ''production'' 0 [root_stub ''/r''] =
     ([placed demo_root ''/r'' ''./''], None, 1)"
    by simp
  from 1 2 3 twin_counting_run root_only_counting_run root_only_counting_round show ?thesis
    by blast
qed

text \<open>
  C6.  The inner loop appends a stub for exactly the declarations whose \<^verbatim>\<open>Source\<close> is
  not empty, in their order, and leaves the queue as it is when every declaration is
  inline.  In a run that returns without error the completed sequence has one entry for
  the root and one for each declaration with a source of the completed components: an
  inline declaration never has an entry of its own.
\<close>

theorem inline_never_enqueued:
  "enqueue c ds queue = queue @ map (componentToQueue c) (filter (\<lambda>d. Source d \<noteq> []) ds) \<and>
   ((\<forall>d \<in> set ds. Source d = []) \<longrightarrow> enqueue c ds queue = queue) \<and>
   (IterateComponentTree E startingPath environment cb st = Some (cs, None, st') \<longrightarrow>
      length cs =
        Suc (sum_list (map (\<lambda>c. length (filter (\<lambda>d. Source d \<noteq> []) (Subcomponents c))) cs)))"
proof (intro conjI impI)
  show "enqueue c ds queue = queue @ map (componentToQueue c) (filter (\<lambda>d. Source d \<noteq> []) ds)"
    by (rule enqueue_append)
  show "enqueue c ds queue = queue" if "\<forall>d \<in> set ds. Source d = []"
  proof -
    from that have "filter (\<lambda>d. Source d \<noteq> []) ds = []" by (simp add: filter_empty_conv)
    then show ?thesis by (simp add: enqueue_append)
  qed
  show "length cs =
        Suc (sum_list (map (\<lambda>c. length (filter (\<lambda>d. Source d \<noteq> []) (Subcomponents c))) cs))"
    if "IterateComponentTree E startingPath environment cb st = Some (cs, None, st')"
  proof -
    from iterate_success [OF that [unfolded IterateComponentTree_def]]
    have "list_all2 (visited_by E cb environment)
           (root_stub startingPath # concat (map stubs_of cs)) cs"
      by simp
    from list_all2_lengthD [OF this]
    show ?thesis
      by (simp add: length_concat stubs_of_def comp_def)
  qed
qed

theorem inline_never_enqueued_witness:
  "enqueue (placed demo_root ''/r'' ''./'') (Subcomponents (placed demo_root ''/r'' ''./'')) [] =
     [Component ''web'' [] [] [] [] [] [] ''/r/components/web'' ''web'' zero_config [],
      Component ''db'' [] [] [] [] [] [] ''/r/db'' ''db'' zero_config []] \<and>
   enqueue (placed demo_root ''/r'' ''./'') [component_literal ''assets'' [] []] [] = [] \<and>
   length demo_completed = 4"
proof -
  from inline_never_enqueued
         [where c = "placed demo_root ''/r'' ''./''"
            and ds = "Subcomponents (placed demo_root ''/r'' ''./'')" and queue = "[]",
          THEN conjunct1]
  have 1: "enqueue (placed demo_root ''/r'' ''./'') (Subcomponents (placed demo_root ''/r'' ''./'')) [] =
     [Component ''web'' [] [] [] [] [] [] ''/r/components/web'' ''web'' zero_config [],
      Component ''db'' [] [] [] [] [] [] ''/r/db'' ''db'' zero_config []]"
    using demo_stubs_root by (simp add: stubs_of_def)
  from inline_never_enqueued
         [where c = "placed demo_root ''/r'' ''./''"
            and ds = "[component_literal ''assets'' [] [] :: nat Component]" and queue = "[]",
          THEN conjunct2, THEN conjunct1]
  have 2: "enqueue (placed demo_root ''/r'' ''./'') [component_literal ''assets'' [] []] [] = []"
    by (simp add: component_literal_def)
  from inline_never_enqueued
         [where E = demo_env and startingPath = "''/r''" and environment = "''production''"
            and cb = keep and st = "()" and cs = demo_completed and st' = "()",
          THEN conjunct2, THEN conjunct2] demo_run
  have 3: "length demo_completed = 4"
    by (simp add: demo_completed_def world_defs demo_defs)
  from 1 2 3 show ?thesis by simp
qed

subsection \<open>\<^verbatim>\<open>Install\<close>\<close>

text \<open>
  C4, as stated, fails for a subcomponent whose method is git and whose source is
  empty: the loop tests the method only, so the directory is made, the target removed
  and the clone attempted with an empty source.
\<close>

theorem Install_git_with_empty_source:
  "Install record_command
     (Component ''root'' [] [] [] [component_literal ''web'' [] ''git''] [] [] [] [] zero_config []
        :: nat Component) ''/r'' [] =
   (None, [Mkdir_p ''/r/components'', Rm_rf ''/r/components/web'',
           Git_clone [] ''/r/components/web''])"
  by (simp add: Install_def component_literal_def record_command_def RelativePathTo_def
        demo_paths Let_def del: Join.simps)

text \<open>
  C4, amended.  \<^verbatim>\<open>Install\<close> runs the three steps (ensure the \<^verbatim>\<open>components\<close>
  directory, remove the target, clone) for exactly the immediate subcomponents whose
  method is git, in the order of their declaration, whether or not they have a source;
  with a runner that only logs, the log grows by exactly these commands.  A component
  with no git subcomponent causes no command at all.  The first command that fails ends
  the operation with its error.
\<close>

theorem Install_git_only:
  "Install run c installPath st =
     run_steps run
       (concat (map (install_steps installPath) (filter (\<lambda>d. Method d = ''git'') (Subcomponents c))))
       st \<and>
   Install record_command c installPath log =
     (None, log @ concat (map (install_steps installPath)
                            (filter (\<lambda>d. Method d = ''git'') (Subcomponents c)))) \<and>
   ((\<forall>d \<in> set (Subcomponents c). Method d \<noteq> ''git'') \<longrightarrow> Install run c installPath st = (None, st)) \<and>
   (concat (map (install_steps installPath) (filter (\<lambda>d. Method d = ''git'') (Subcomponents c)))
      = pre @ cmd # post \<and>
    run_steps run pre st = (None, mid) \<and> run cmd mid = (Some err, final) \<longrightarrow>
      Install run c installPath st = (Some err, final))"
proof (intro conjI impI)
  show "Install run c installPath st = (None, st)"
    if "\<forall>d \<in> set (Subcomponents c). Method d \<noteq> ''git''"
  proof -
    from that have "filter (\<lambda>d. Method d = ''git'') (Subcomponents c) = []"
      by (simp add: filter_empty_conv)
    then show ?thesis by (simp add: Install_def Install_loop_steps)
  qed
  show "Install run c installPath st = (Some err, final)"
    if "concat (map (install_steps installPath) (filter (\<lambda>d. Method d = ''git'') (Subcomponents c)))
      = pre @ cmd # post \<and>
    run_steps run pre st = (None, mid) \<and> run cmd mid = (Some err, final)"
    using that by (simp add: Install_def Install_loop_steps run_steps_abort)
qed (simp_all add: Install_def Install_loop_steps run_steps_record)

theorem Install_git_only_witness:
  "Install record_command (placed demo_root ''/r'' ''./'') ''/r'' [] =
     (None, [Mkdir_p ''/r/components'', Rm_rf ''/r/components/web'',
             Git_clone ''https://example/web.git'' ''/r/components/web'']) \<and>
   Install record_command (placed demo_db ''/r/db'' ''db'') ''/r/db'' [] = (None, []) \<and>
   Install failing_clone (placed demo_root ''/r'' ''./'') ''/r'' [] =
     (Some (Failure ''clone failed''),
      [Mkdir_p ''/r/components'', Rm_rf ''/r/components/web'',
       Git_clone ''https://example/web.git'' ''/r/components/web''])"
proof -
  have steps: "concat (map (install_steps ''/r'')
                 (filter (\<lambda>d. Method d = ''git'') (Subcomponents (placed demo_root ''/r'' ''./'')))) =
     [Mkdir_p ''/r/components'', Rm_rf ''/r/components/web''] @
     Git_clone ''https://example/web.git'' ''/r/components/web'' # []"
    by (simp add: install_steps_def placed_def demo_root_def component_literal_def demo_paths
          del: Join.simps)
  from Install_git_only
         [where c = "placed demo_root ''/r'' ''./''" and installPath = "''/r''" and log = "[]",
          THEN conjunct2, THEN conjunct1]
  have 1: "Install record_command (placed demo_root ''/r'' ''./'') ''/r'' [] =
     (None, [Mkdir_p ''/r/components'', Rm_rf ''/r/components/web'',
             Git_clone ''https://example/web.git'' ''/r/components/web''])"
    by (simp only: steps) simp
  from Install_git_only
         [where c = "placed demo_db ''/r/db'' ''db''" and installPath = "''/r/db''"
            and run = record_command and st = "[]",
          THEN conjunct2, THEN conjunct2, THEN conjunct1]
  have 2: "Install record_command (placed demo_db ''/r/db'' ''db'') ''/r/db'' [] = (None, [])"
    by (simp add: placed_def demo_db_def component_literal_def)
  from Install_git_only
         [where c = "placed demo_root ''/r'' ''./''" and installPath = "''/r''"
            and run = failing_clone and st = "[]"
            and pre = "[Mkdir_p ''/r/components'', Rm_rf ''/r/components/web'']"
            and cmd = "Git_clone ''https://example/web.git'' ''/r/components/web''"
            and post = "[]"
            and mid = "[Mkdir_p ''/r/components'', Rm_rf ''/r/components/web'']"
            and err = "Failure ''clone failed''"
            and final = "[Mkdir_p ''/r/components'', Rm_rf ''/r/components/web'',
                        Git_clone ''https://example/web.git'' ''/r/components/web'']",
          THEN conjunct2, THEN conjunct2, THEN conjunct2]
  have 3: "Install failing_clone (placed demo_root ''/r'' ''./'') ''/r'' [] =
     (Some (Failure ''clone failed''),
      [Mkdir_p ''/r/components'', Rm_rf ''/r/components/web'',
       Git_clone ''https://example/web.git'' ''/r/components/web''])"
    by (simp only: steps) (simp add: failing_clone_def)
  from 1 2 3 show ?thesis by simp
qed

subsection \<open>Loading\<close>

text \<open>
  C7.  When \<^verbatim>\<open>LoadComponent\<close> succeeds, the component it returns has the physical and
  the logical path of the stub, whatever the descriptor declares for them; its other
  fields are the descriptor's, and its configuration is the descriptor's with the
  stub's pending configuration merged into it.  It succeeds exactly when the descriptor
  is there and parses; it fails with \<open>NotFound\<close> when there is no descriptor at the
  stub's physical path, with a parse error when the descriptor is malformed, and with a
  read error when the file cannot be read.
\<close>

theorem LoadComponent_spec:
  "(LoadComponent E st stub = Inr m \<longrightarrow>
      PhysicalPath m = PhysicalPath stub \<and> LogicalPath m = LogicalPath stub \<and>
      (\<exists>bytes d. file_at E st (Join [PhysicalPath stub, ''component.json'']) = Contents bytes \<and>
         unmarshal_component E bytes = Some d \<and>
         Config m = Merge E (Config d) (Config stub) \<and>
         Name m = Name d \<and> Source m = Source d \<and> Method m = Method d \<and>
         Generator m = Generator d \<and> Subcomponents m = Subcomponents d \<and> Repo m = Repo d \<and>
         Path m = Path d \<and> Manifest m = Manifest d)) \<and>
   (file_at E st (Join [PhysicalPath stub, ''component.json'']) = Contents bytes \<and>
    unmarshal_component E bytes = Some d \<longrightarrow>
      LoadComponent E st stub =
        Inr (Component (Name d) (Source d) (Method d) (Generator d) (Subcomponents d) (Repo d)
               (Path d) (PhysicalPath stub) (LogicalPath stub)
               (Merge E (Config d) (Config stub)) (Manifest d))) \<and>
   (file_at E st (Join [PhysicalPath stub, ''component.json'']) = NotExist \<longrightarrow>
      LoadComponent E st stub = Inl (NotFound (Join [PhysicalPath stub, ''component.json'']))) \<and>
   (file_at E st (Join [PhysicalPath stub, ''component.json'']) = Contents bytes \<and>
    unmarshal_component E bytes = None \<longrightarrow>
      LoadComponent E st stub = Inl (ParseError (Join [PhysicalPath stub, ''component.json'']))) \<and>
   (file_at E st (Join [PhysicalPath stub, ''component.json'']) = Unreadable \<longrightarrow>
      LoadComponent E st stub = Inl (ReadError (Join [PhysicalPath stub, ''component.json''])))"
  by (auto simp: LoadComponent_def Let_def split: file_state.splits option.splits
        simp del: Join.simps)

theorem LoadComponent_spec_witness:
  "LoadComponent stray_env () (pending_stub ''/r/components/web'' ''web'') =
     Inr (Component ''web'' ''https://example/web.git'' ''git'' ''helm'' [] ''repo'' ''charts/web''
            ''/r/components/web'' ''web''
            (Merge stray_env production_config common_config) ''manifest'') \<and>
   LoadComponent stray_env () (pending_stub ''/r/api'' ''api'') =
     Inl (NotFound ''/r/api/component.json'') \<and>
   LoadComponent stray_env () (pending_stub ''/r/db'' ''db'') =
     Inl (ParseError ''/r/db/component.json'') \<and>
   LoadComponent stray_env () (pending_stub ''/r/cache'' ''cache'') =
     Inl (ReadError ''/r/cache/component.json'')"
proof -
  note defs = stray_env_def world_def pending_stub_def stray_descriptor_def demo_paths stray_paths
  from LoadComponent_spec
         [where E = stray_env and st = "()" and stub = "pending_stub ''/r/components/web'' ''web''"
            and bytes = "''web''" and d = stray_descriptor,
          THEN conjunct2, THEN conjunct1]
  have 1: "LoadComponent stray_env () (pending_stub ''/r/components/web'' ''web'') =
     Inr (Component ''web'' ''https://example/web.git'' ''git'' ''helm'' [] ''repo'' ''charts/web''
            ''/r/components/web'' ''web''
            (Merge stray_env production_config common_config) ''manifest'')"
    by (simp add: defs del: Join.simps)
  from LoadComponent_spec
         [where E = stray_env and st = "()" and stub = "pending_stub ''/r/api'' ''api''",
          THEN conjunct2, THEN conjunct2, THEN conjunct1]
  have 2: "LoadComponent stray_env () (pending_stub ''/r/api'' ''api'') =
     Inl (NotFound ''/r/api/component.json'')"
    by (simp add: defs del: Join.simps)
  from LoadComponent_spec
         [where E = stray_env and st = "()" and stub = "pending_stub ''/r/db'' ''db''"
            and bytes = "''{''",
          THEN conjunct2, THEN conjunct2, THEN conjunct2, THEN conjunct1]
  have 3: "LoadComponent stray_env () (pending_stub ''/r/db'' ''db'') =
     Inl (ParseError ''/r/db/component.json'')"
    by (simp add: defs del: Join.simps)
  from LoadComponent_spec
         [where E = stray_env and st = "()" and stub = "pending_stub ''/r/cache'' ''cache''",
          THEN conjunct2, THEN conjunct2, THEN conjunct2, THEN conjunct2]
  have 4: "LoadComponent stray_env () (pending_stub ''/r/cache'' ''cache'') =
     Inl (ReadError ''/r/cache/component.json'')"
    by (simp add: defs del: Join.simps)
  from 1 2 3 4 show ?thesis by simp
qed

text \<open>
  C8.  \<^verbatim>\<open>LoadConfig\<close> merges the overlay \<^verbatim>\<open>config/<environment>.json\<close> under the
  physical path into the configuration first and \<^verbatim>\<open>config/common.json\<close> into the
  result second.  The component it returns has the merged configuration in the field
  \<^verbatim>\<open>Config\<close> and every other field as before.  A file that is not there is skipped and
  is no error; with neither file the component is returned as it was.  A file that is
  there and malformed gives a parse error, a file that cannot be read gives a read
  error (for the common overlay: once the environment overlay was absent or merged).
\<close>

theorem LoadConfig_spec:
  "(file_at E st (Join [PhysicalPath c, ''config'', environment @ ''.json'']) = Contents eb \<and>
    unmarshal_config E eb = Some ec \<and>
    file_at E st (Join [PhysicalPath c, ''config'', ''common.json'']) = Contents cb \<and>
    unmarshal_config E cb = Some cc \<longrightarrow>
      LoadConfig E st c environment =
        Inr (Component (Name c) (Source c) (Method c) (Generator c) (Subcomponents c) (Repo c)
               (Path c) (PhysicalPath c) (LogicalPath c)
               (Merge E (Merge E (Config c) ec) cc) (Manifest c))) \<and>
   (file_at E st (Join [PhysicalPath c, ''config'', environment @ ''.json'']) = NotExist \<and>
    file_at E st (Join [PhysicalPath c, ''config'', ''common.json'']) = Contents cb \<and>
    unmarshal_config E cb = Some cc \<longrightarrow>
      LoadConfig E st c environment =
        Inr (Component (Name c) (Source c) (Method c) (Generator c) (Subcomponents c) (Repo c)
               (Path c) (PhysicalPath c) (LogicalPath c)
               (Merge E (Config c) cc) (Manifest c))) \<and>
   (file_at E st (Join [PhysicalPath c, ''config'', environment @ ''.json'']) = Contents eb \<and>
    unmarshal_config E eb = Some ec \<and>
    file_at E st (Join [PhysicalPath c, ''config'', ''common.json'']) = NotExist \<longrightarrow>
      LoadConfig E st c environment =
        Inr (Component (Name c) (Source c) (Method c) (Generator c) (Subcomponents c) (Repo c)
               (Path c) (PhysicalPath c) (LogicalPath c)
               (Merge E (Config c) ec) (Manifest c))) \<and>
   (file_at E st (Join [PhysicalPath c, ''config'', environment @ ''.json'']) = NotExist \<and>
    file_at E st (Join [PhysicalPath c, ''config'', ''common.json'']) = NotExist \<longrightarrow>
      LoadConfig E st c environment = Inr c) \<and>
   (file_at E st (Join [PhysicalPath c, ''config'', environment @ ''.json'']) = Contents eb \<and>
    unmarshal_config E eb = None \<longrightarrow>
      LoadConfig E st c environment =
        Inl (ParseError (Join [PhysicalPath c, ''config'', environment @ ''.json'']))) \<and>
   (file_at E st (Join [PhysicalPath c, ''config'', environment @ ''.json'']) = Unreadable \<longrightarrow>
      LoadConfig E st c environment =
        Inl (ReadError (Join [PhysicalPath c, ''config'', environment @ ''.json'']))) \<and>
   ((file_at E st (Join [PhysicalPath c, ''config'', environment @ ''.json'']) = NotExist \<or>
     file_at E st (Join [PhysicalPath c, ''config'', environment @ ''.json'']) = Contents eb \<and>
     unmarshal_config E eb = Some ec) \<and>
    file_at E st (Join [PhysicalPath c, ''config'', ''common.json'']) = Contents cb \<and>
    unmarshal_config E cb = None \<longrightarrow>
      LoadConfig E st c environment =
        Inl (ParseError (Join [PhysicalPath c, ''config'', ''common.json'']))) \<and>
   ((file_at E st (Join [PhysicalPath c, ''config'', environment @ ''.json'']) = NotExist \<or>
     file_at E st (Join [PhysicalPath c, ''config'', environment @ ''.json'']) = Contents eb \<and>
     unmarshal_config E eb = Some ec) \<and>
    file_at E st (Join [PhysicalPath c, ''config'', ''common.json'']) = Unreadable \<longrightarrow>
      LoadConfig E st c environment =
        Inl (ReadError (Join [PhysicalPath c, ''config'', ''common.json''])))"
  by (auto simp: LoadConfig_def MergeConfigFile_def Let_def simp del: Join.simps)

theorem LoadConfig_spec_witness:
  "LoadConfig overlay_env () (placed demo_root ''/r'' ''./'') ''production'' =
     Inr (Component ''root'' [] [] [] (Subcomponents demo_root) [] [] ''/r'' ''./''
            (ComponentConfig (fmupd ''port'' 8080 (fmupd ''debug'' 0 fmempty)) fmempty) []) \<and>
   LoadConfig overlay_env () (placed demo_root ''/r'' ''./'') ''staging'' =
     Inr (Component ''root'' [] [] [] (Subcomponents demo_root) [] [] ''/r'' ''./''
            common_config []) \<and>
   LoadConfig demo_env () (placed demo_root ''/r'' ''./'') ''production'' =
     Inr (placed demo_root ''/r'' ''./'') \<and>
   LoadConfig damaged_env () (placed demo_root ''/r'' ''./'') ''production'' =
     Inl (ParseError ''/r/config/common.json'') \<and>
   LoadConfig damaged_env () (placed demo_root ''/r'' ''./'') ''staging'' =
     Inl (ReadError ''/r/config/staging.json'')"
proof -
  note defs = overlay_env_def overlay_files_def overlay_decode_def world_def placed_def
    demo_root_def demo_paths demo_env_def demo_files_def damaged_env_def damaged_files_def
  let ?root = "placed demo_root ''/r'' ''./''"
  from LoadConfig_spec
         [where E = overlay_env and st = "()" and c = ?root and environment = "''production''"
            and eb = "''production''" and ec = production_config and cb = "''common''"
            and cc = common_config, THEN conjunct1]
  have 1: "LoadConfig overlay_env () ?root ''production'' =
     Inr (Component ''root'' [] [] [] (Subcomponents demo_root) [] [] ''/r'' ''./''
            (ComponentConfig (fmupd ''port'' 8080 (fmupd ''debug'' 0 fmempty)) fmempty) [])"
    by (simp add: defs overlay_merged del: Join.simps)
  from LoadConfig_spec
         [where E = overlay_env and st = "()" and c = ?root and environment = "''staging''"
            and cb = "''common''" and cc = common_config, THEN conjunct2, THEN conjunct1]
  have 2: "LoadConfig overlay_env () ?root ''staging'' =
     Inr (Component ''root'' [] [] [] (Subcomponents demo_root) [] [] ''/r'' ''./''
            common_config [])"
    by (simp add: defs spec_Merge_zero_left del: Join.simps)
  from LoadConfig_spec
         [where E = demo_env and st = "()" and c = ?root and environment = "''production''",
          THEN conjunct2, THEN conjunct2, THEN conjunct2, THEN conjunct1]
  have 3: "LoadConfig demo_env () ?root ''production'' = Inr ?root"
    by (simp add: defs del: Join.simps)
  from LoadConfig_spec
         [where E = damaged_env and st = "()" and c = ?root and environment = "''production''"
            and cb = "''{''",
          THEN conjunct2, THEN conjunct2, THEN conjunct2, THEN conjunct2, THEN conjunct2,
          THEN conjunct2, THEN conjunct1]
  have 4: "LoadConfig damaged_env () ?root ''production'' =
     Inl (ParseError ''/r/config/common.json'')"
    by (simp add: defs del: Join.simps)
  from LoadConfig_spec
         [where E = damaged_env and st = "()" and c = ?root and environment = "''staging''",
          THEN conjunct2, THEN conjunct2, THEN conjunct2, THEN conjunct2, THEN conjunct2,
          THEN conjunct1]
  have 5: "LoadConfig damaged_env () ?root ''staging'' =
     Inl (ReadError ''/r/config/staging.json'')"
    by (simp add: defs del: Join.simps)
  from 1 2 3 4 5 show ?thesis by simp
qed

subsection \<open>The empty configuration\<close>

text \<open>
  C9.  In the merge engine as the specification describes it, under either policy, the
  configuration with no entries is a left and a right identity; the configuration of
  the synthetic root is that configuration.
\<close>

theorem empty_config_is_identity:
  "spec_Merge pol x (ComponentConfig fmempty fmempty) = x \<and>
   spec_Merge pol (ComponentConfig fmempty fmempty) x = x \<and>
   Config (root_stub startingPath :: 'v Component) = ComponentConfig fmempty fmempty \<and>
   spec_Merge pol x (Config (root_stub startingPath)) = x \<and>
   spec_Merge pol (Config (root_stub startingPath)) x = x"
  using spec_Merge_zero_left [of pol x] spec_Merge_zero_right [of pol x]
  by (simp add: zero_config_def root_stub_def)

theorem empty_config_is_identity_witness:
  "spec_Merge OverlayWins common_config (ComponentConfig fmempty fmempty) = common_config \<and>
   spec_Merge FillGaps (Config (root_stub ''/r'')) common_config = common_config"
  using empty_config_is_identity [of OverlayWins common_config "''/r''"]
        empty_config_is_identity [of FillGaps common_config "''/r''"]
  by blast

subsection \<open>\<^verbatim>\<open>RelativePathTo\<close>\<close>

text \<open>
  C5.  \<^verbatim>\<open>RelativePathTo\<close> is a total function of \<^verbatim>\<open>Method\<close>, \<^verbatim>\<open>Source\<close> and
  \<^verbatim>\<open>Name\<close> alone: for any two components that agree on these three fields it returns
  the same string; the result is \<^verbatim>\<open>components/<Name>\<close> when the method is git
  (whatever the source), else \<^verbatim>\<open><Name>\<close> when the source is not empty, else
  \<^verbatim>\<open>./\<close>.  The three examples of the specification are instances.
\<close>

theorem RelativePathTo_spec:
  "(Method c = Method d \<and> Source c = Source d \<and> Name c = Name d
      \<longrightarrow> RelativePathTo (c :: 'v Component) = RelativePathTo (d :: 'v Component)) \<and>
   (Method c = ''git'' \<longrightarrow> RelativePathTo c = ''components/'' @ Name c) \<and>
   (Method c \<noteq> ''git'' \<and> Source c \<noteq> '''' \<longrightarrow> RelativePathTo c = Name c) \<and>
   (Method c \<noteq> ''git'' \<and> Source c = '''' \<longrightarrow> RelativePathTo c = ''./'') \<and>
   RelativePathTo (component_literal ''db'' '''' ''git'' :: 'v Component) = ''components/db'' \<and>
   RelativePathTo (component_literal ''cache'' ''http://x'' '''' :: 'v Component) = ''cache'' \<and>
   RelativePathTo (component_literal ''assets'' '''' '''' :: 'v Component) = ''./''"
  by (simp add: RelativePathTo_def component_literal_def)

theorem RelativePathTo_spec_witness:
  "RelativePathTo (component_literal ''db'' ''https://example/db.git'' ''git'' :: nat Component)
     = ''components/db'' \<and>
   RelativePathTo (component_literal ''cache'' ''http://x'' ''helm'' :: nat Component) = ''cache'' \<and>
   RelativePathTo (component_literal ''assets'' '''' ''helm'' :: nat Component) = ''./''"
  using RelativePathTo_spec [of "component_literal ''db'' ''https://example/db.git'' ''git'' :: nat Component"
                               "component_literal ''db'' ''https://example/db.git'' ''git''"]
        RelativePathTo_spec [of "component_literal ''cache'' ''http://x'' ''helm'' :: nat Component"
                               "component_literal ''cache'' ''http://x'' ''helm''"]
        RelativePathTo_spec [of "component_literal ''assets'' '''' ''helm'' :: nat Component"
                               "component_literal ''assets'' '''' ''helm''"]
  by (simp add: component_literal_def)

subsection \<open>Logical paths\<close>





end
